theory Spec2Isabelle
  imports Complex_Main
begin

section \<open>JavaScript values\<close>

text \<open>
  The component in \<^verbatim>\<open>Frontend/src/App.jsx\<close> works on untyped JavaScript values: the
  parsed JSON bodies of the two endpoints, the file handed over by the drop widget, and the
  \<^verbatim>\<open>null\<close> initial values of the state hooks. A number is the mathematical value of a
  double (a rational), or one of the three non-finite doubles; the two zeros are identified,
  since no expression of the component tells them apart (\<^verbatim>\<open>-0\<close> is falsy, and
  \<^verbatim>\<open>toFixed\<close> prints it without a sign). An object carries its own enumerable properties
  in the order in which \<^verbatim>\<open>Object.keys\<close> lists them, with pairwise distinct keys.
  \<^verbatim>\<open>FileObj t\<close> is a browser \<^verbatim>\<open>File\<close> whose \<^verbatim>\<open>type\<close> attribute is \<open>t\<close>. A string is
  a list of characters; the two emoji of the notices, which the component only searches
  for, are written as their UTF-8 bytes.
\<close>

datatype jsnum = Fin rat | PosInf | NegInf | NaN

datatype jsval =
    Undefined
  | Null
  | Bool bool
  | Num jsnum
  | Str string
  | Arr "jsval list"
  | Obj "(string \<times> jsval) list"
  | FileObj string

datatype exn = TypeError

text \<open>\<^verbatim>\<open>ToBoolean\<close>, which decides \<^verbatim>\<open>if\<close>, \<^verbatim>\<open>!\<close>, \<^verbatim>\<open>&&\<close>, \<^verbatim>\<open>||\<close> and \<^verbatim>\<open>? :\<close>.\<close>

fun truthy :: "jsval \<Rightarrow> bool" where
  "truthy Undefined = False"
| "truthy Null = False"
| "truthy (Bool b) = b"
| "truthy (Num (Fin x)) = (x \<noteq> 0)"
| "truthy (Num PosInf) = True"
| "truthy (Num NegInf) = True"
| "truthy (Num NaN) = False"
| "truthy (Str s) = (s \<noteq> [])"
| "truthy (Arr xs) = True"
| "truthy (Obj kvs) = True"
| "truthy (FileObj t) = True"

text \<open>\<^verbatim>\<open>a || b\<close> on values that are already evaluated.\<close>

definition js_or :: "jsval \<Rightarrow> jsval \<Rightarrow> jsval" where
  "js_or a b = (if truthy a then a else b)"

definition nullish :: "jsval \<Rightarrow> bool" where
  "nullish v = (v = Undefined \<or> v = Null)"

text \<open>
  Property read \<^verbatim>\<open>v.k\<close>. Reading from \<^verbatim>\<open>undefined\<close> or \<^verbatim>\<open>null\<close> throws a
  \<^verbatim>\<open>TypeError\<close>. The keys the component reads (\<^verbatim>\<open>type\<close>, \<^verbatim>\<open>error\<close>, \<^verbatim>\<open>message\<close>,
  \<^verbatim>\<open>disease_classification\<close>, ...) are neither inherited from a prototype nor index or
  length properties, so a primitive, an array or a file has them only where stated here.
\<close>

fun get :: "jsval \<Rightarrow> string \<Rightarrow> exn + jsval" where
  "get Undefined k = Inl TypeError"
| "get Null k = Inl TypeError"
| "get (Obj kvs) k = Inr (case map_of kvs k of None \<Rightarrow> Undefined | Some v \<Rightarrow> v)"
| "get (FileObj t) k = Inr (if k = ''type'' then Str t else Undefined)"
| "get v k = Inr Undefined"

text \<open>Optional read \<^verbatim>\<open>v?.k\<close>: \<^verbatim>\<open>undefined\<close> when \<open>v\<close> is nullish, and it never throws.\<close>

definition opt_get :: "jsval \<Rightarrow> string \<Rightarrow> jsval" where
  "opt_get v k = (case get v k of Inl e \<Rightarrow> Undefined | Inr w \<Rightarrow> w)"

text \<open>\<^verbatim>\<open>String.prototype.startsWith\<close> and \<^verbatim>\<open>String.prototype.includes\<close>.\<close>

fun startsWith :: "string \<Rightarrow> string \<Rightarrow> bool" where
  "startsWith s [] = True"
| "startsWith [] (p # ps) = False"
| "startsWith (c # cs) (p # ps) = (c = p \<and> startsWith cs ps)"

fun str_includes :: "string \<Rightarrow> string \<Rightarrow> bool" where
  "str_includes [] p = (p = [])"
| "str_includes (c # cs) p = (startsWith (c # cs) p \<or> str_includes cs p)"

section \<open>Numbers and conversions\<close>

text \<open>
  Arithmetic on doubles is the exact operation followed by rounding to the nearest double,
  ties to the even significand (IEEE 754 binary64: 53 bits of significand, exponents from
  \<open>-1022\<close> to \<open>1023\<close>, gradual underflow, overflow to infinity). \<open>binade a\<close> is the
  exponent \<open>e\<close> with \<open>2^e \<le> a < 2^(e+1)\<close> of a positive \<open>a\<close>, \<open>quantum a\<close> the distance
  between neighbouring doubles there, and \<open>nearest a\<close> the multiple of the quantum that is
  closest to \<open>a\<close>.
\<close>

fun bitlength :: "nat \<Rightarrow> nat" where
  "bitlength n = (if n = 0 then 0 else Suc (bitlength (n div 2)))"

declare bitlength.simps [simp del]

definition pow2 :: "int \<Rightarrow> rat" where
  "pow2 e = (if 0 \<le> e then 2 ^ nat e else 1 / 2 ^ nat (- e))"

definition binade :: "rat \<Rightarrow> int" where
  "binade a = (if 1 \<le> a then int (bitlength (nat \<lfloor>a\<rfloor>)) - 1
               else - int (bitlength (nat \<lceil>1 / a\<rceil> - 1)))"

definition round_half_even :: "rat \<Rightarrow> int" where
  "round_half_even y =
     (let n = \<lfloor>y\<rfloor>; d = y - of_int n
      in if d < 1 / 2 then n else if 1 / 2 < d then n + 1 else if even n then n else n + 1)"

definition quantum :: "rat \<Rightarrow> rat" where
  "quantum a = pow2 (max (binade a) (- 1022) - 52)"

definition nearest :: "rat \<Rightarrow> rat" where
  "nearest a = of_int (round_half_even (a / quantum a)) * quantum a"

definition round_double :: "rat \<Rightarrow> jsnum" where
  "round_double x =
     (if x = 0 then Fin 0
      else if pow2 1024 \<le> nearest \<bar>x\<bar> then (if 0 < x then PosInf else NegInf)
      else Fin (if 0 < x then nearest \<bar>x\<bar> else - nearest \<bar>x\<bar>))"

text \<open>The two arithmetic expressions of the component: \<^verbatim>\<open>v * 100\<close> and \<^verbatim>\<open>100 - v\<close>.\<close>

fun times100 :: "jsnum \<Rightarrow> jsnum" where
  "times100 (Fin a) = round_double (a * 100)"
| "times100 PosInf = PosInf"
| "times100 NegInf = NegInf"
| "times100 NaN = NaN"

fun minus_from_100 :: "jsnum \<Rightarrow> jsnum" where
  "minus_from_100 (Fin a) = round_double (100 - a)"
| "minus_from_100 PosInf = NegInf"
| "minus_from_100 NegInf = PosInf"
| "minus_from_100 NaN = NaN"

text \<open>
  What the model takes from the JavaScript engine as given: the shortest-digits printing of
  a finite number (used only for a non-integer, or beyond \<open>10^21\<close>), the parsing of a
  string as a numeric literal, and the messages of the two \<^verbatim>\<open>TypeError\<close>s that the
  request handlers can catch: the one raised by reading a property of \<^verbatim>\<open>null\<close>, and the
  one raised by converting an object to a primitive value.
\<close>

record runtime =
  number_to_string :: "rat \<Rightarrow> string"
  string_to_number :: "string \<Rightarrow> jsnum"
  null_read_message :: string
  to_primitive_message :: string

definition digit_char :: "nat \<Rightarrow> char" where
  "digit_char d = ''0123456789'' ! d"

fun decimal :: "nat \<Rightarrow> string" where
  "decimal n = (if n < 10 then [digit_char n] else decimal (n div 10) @ [digit_char (n mod 10)])"

declare decimal.simps [simp del]

fun join :: "string \<Rightarrow> string list \<Rightarrow> string" where
  "join sep [] = []"
| "join sep [x] = x"
| "join sep (x # y # ys) = x @ sep @ join sep (y # ys)"

text \<open>
  The conversion of an object to a primitive value calls its \<^verbatim>\<open>toString\<close> and
  \<^verbatim>\<open>valueOf\<close> methods. The properties of an object parsed from JSON are never callable,
  so an own \<^verbatim>\<open>toString\<close> property hides the method of the prototype and the conversion
  throws a \<^verbatim>\<open>TypeError\<close>; without one the prototype's method gives
  \<^verbatim>\<open>[object Object]\<close>. (The prototype's \<^verbatim>\<open>valueOf\<close> returns the object itself, and an
  own \<^verbatim>\<open>valueOf\<close> is not callable: either way it is passed over.) An array is joined
  from the conversions of its elements, and throws when one of them does.
\<close>

definition own_toString :: "(string \<times> jsval) list \<Rightarrow> bool" where
  "own_toString kvs = (map_of kvs ''toString'' \<noteq> None)"

fun collect :: "(exn + 'a) list \<Rightarrow> exn + 'a list" where
  "collect [] = Inr []"
| "collect (x # xs) =
     (case x of
        Inl e \<Rightarrow> Inl e
      | Inr y \<Rightarrow> (case collect xs of Inl e \<Rightarrow> Inl e | Inr ys \<Rightarrow> Inr (y # ys)))"

text \<open>\<^verbatim>\<open>ToString\<close>, as a template literal applies it.\<close>

fun to_string :: "runtime \<Rightarrow> jsval \<Rightarrow> exn + string" where
  "to_string rt Undefined = Inr ''undefined''"
| "to_string rt Null = Inr ''null''"
| "to_string rt (Bool b) = Inr (if b then ''true'' else ''false'')"
| "to_string rt (Num NaN) = Inr ''NaN''"
| "to_string rt (Num PosInf) = Inr ''Infinity''"
| "to_string rt (Num NegInf) = Inr ''-Infinity''"
| "to_string rt (Num (Fin x)) =
     Inr (if of_int \<lfloor>x\<rfloor> = x \<and> \<bar>x\<bar> < 10 ^ 21
          then (if x < 0 then ''-'' else []) @ decimal (nat \<bar>\<lfloor>x\<rfloor>\<bar>)
          else number_to_string rt x)"
| "to_string rt (Str s) = Inr s"
| "to_string rt (Arr xs) =
     (case collect (map (\<lambda>v. if v = Undefined \<or> v = Null then Inr [] else to_string rt v) xs) of
        Inl e \<Rightarrow> Inl e
      | Inr ss \<Rightarrow> Inr (join '','' ss))"
| "to_string rt (Obj kvs) = (if own_toString kvs then Inl TypeError else Inr ''[object Object]'')"
| "to_string rt (FileObj t) = Inr ''[object File]''"

text \<open>\<^verbatim>\<open>ToNumber\<close>, as the operators \<^verbatim>\<open>*\<close> and \<^verbatim>\<open>-\<close> apply it to an operand.\<close>

fun to_number :: "runtime \<Rightarrow> jsval \<Rightarrow> exn + jsnum" where
  "to_number rt Undefined = Inr NaN"
| "to_number rt Null = Inr (Fin 0)"
| "to_number rt (Bool b) = Inr (Fin (if b then 1 else 0))"
| "to_number rt (Num n) = Inr n"
| "to_number rt (Str s) = Inr (string_to_number rt s)"
| "to_number rt (Arr xs) =
     (case to_string rt (Arr xs) of
        Inl e \<Rightarrow> Inl e
      | Inr s \<Rightarrow> Inr (string_to_number rt s))"
| "to_number rt (Obj kvs) = (if own_toString kvs then Inl TypeError else Inr NaN)"
| "to_number rt (FileObj t) = Inr NaN"

text \<open>
  \<^verbatim>\<open>Number.prototype.toFixed\<close> with \<open>f\<close> fraction digits: the integer \<open>n\<close> for which
  \<open>n / 10^f\<close> is closest to the magnitude, the larger one on a tie, printed with the point
  before its last \<open>f\<close> digits.
\<close>

definition toFixed :: "runtime \<Rightarrow> jsnum \<Rightarrow> nat \<Rightarrow> string" where
  "toFixed rt x f =
     (case x of
        NaN \<Rightarrow> ''NaN''
      | PosInf \<Rightarrow> ''Infinity''
      | NegInf \<Rightarrow> ''-Infinity''
      | Fin r \<Rightarrow>
          (let s = (if r < 0 then ''-'' else []); a = \<bar>r\<bar> in
           if 10 ^ 21 \<le> a then s @ number_to_string rt a
           else
             let n = nat \<lfloor>a * 10 ^ f + 1 / 2\<rfloor>;
                 m = decimal n;
                 m = (if f \<noteq> 0 \<and> length m \<le> f
                      then replicate (f + 1 - length m) (CHR ''0'') @ m else m)
             in if f \<noteq> 0 then s @ take (length m - f) m @ ''.'' @ drop (length m - f) m
                else s @ m))"

text \<open>
  \<^verbatim>\<open>String.prototype.toLowerCase\<close> on the letters \<^verbatim>\<open>A\<close> to \<^verbatim>\<open>Z\<close>. The component only
  compares the result with lower-case ASCII words without the letter \<^verbatim>\<open>k\<close>; no character
  outside ASCII is lowered to a letter of such a word, so the comparison is decided by this
  part of the mapping.
\<close>

definition lower_char :: "char \<Rightarrow> char" where
  "lower_char c =
     (let n = (of_char c :: nat) in if 65 \<le> n \<and> n \<le> 90 then char_of (n + 32) else c)"

definition toLowerCase :: "string \<Rightarrow> string" where
  "toLowerCase s = map lower_char s"

section \<open>Component state\<close>

text \<open>The eight \<^verbatim>\<open>useState\<close> hooks of \<^verbatim>\<open>App\<close>, each holding a JavaScript value.\<close>

record state =
  loading :: bool
  ragLoading :: bool
  file' :: jsval
  previewUrl :: jsval
  dragActive :: bool
  error :: jsval
  analyzeResult :: jsval
  ragResult :: jsval

definition initial :: state where
  "initial = \<lparr>loading = False, ragLoading = False, file' = Null, previewUrl = Null,
      dragActive = False, error = Null, analyzeResult = Null, ragResult = Null\<rparr>"

text \<open>
  A handler either returns or throws; the state updates it queued before throwing are kept,
  so both outcomes carry the state.
\<close>

datatype outcome = Done state | Throws exn state

fun state_of :: "outcome \<Rightarrow> state" where
  "state_of (Done s) = s"
| "state_of (Throws e s) = s"

definition cross_mark :: string where
  "cross_mark = [CHR 0xE2, CHR 0x9D, CHR 0x8C]"

definition check_mark :: string where
  "check_mark = [CHR 0xE2, CHR 0x9C, CHR 0x85]"

definition resetState :: "state \<Rightarrow> state" where
  "resetState s = s\<lparr>error := Null, analyzeResult := Null, ragResult := Null\<rparr>"

text \<open>
  \<^verbatim>\<open>URL.createObjectURL\<close> accepts a \<^verbatim>\<open>Blob\<close> (a \<^verbatim>\<open>File\<close> is one) and throws a
  \<^verbatim>\<open>TypeError\<close> on anything else; \<open>url\<close> is the address the browser mints for the call.
\<close>

fun createObjectURL :: "string \<Rightarrow> jsval \<Rightarrow> exn + jsval" where
  "createObjectURL url (FileObj t) = Inr (Str url)"
| "createObjectURL url v = Inl TypeError"

text \<open>
  The test \<^verbatim>\<open>selectedFile?.type.startsWith("image/")\<close>: the optional chain yields
  \<^verbatim>\<open>undefined\<close> for a nullish candidate; otherwise \<^verbatim>\<open>type\<close> is read and
  \<^verbatim>\<open>startsWith\<close> is called on it, which only a string has.
\<close>

definition is_image :: "jsval \<Rightarrow> exn + bool" where
  "is_image selectedFile =
     (if nullish selectedFile then Inr False
      else case get selectedFile ''type'' of
          Inl e \<Rightarrow> Inl e
        | Inr (Str t) \<Rightarrow> Inr (startsWith t ''image/'')
        | Inr v \<Rightarrow> Inl TypeError)"

definition handleImageFile :: "string \<Rightarrow> state \<Rightarrow> jsval \<Rightarrow> outcome" where
  "handleImageFile url s selectedFile =
     (case is_image selectedFile of
        Inl e \<Rightarrow> Throws e s
      | Inr True \<Rightarrow>
          (let s1 = s\<lparr>file' := selectedFile\<rparr> in
           case createObjectURL url selectedFile of
             Inl e \<Rightarrow> Throws e s1
           | Inr u \<Rightarrow>
               Done ((resetState (s1\<lparr>previewUrl := u\<rparr>))
                       \<lparr>error := Str (check_mark @ '' Image updated successfully!'')\<rparr>))
      | Inr False \<Rightarrow>
          Done (resetState
                 (s\<lparr>error := Str (cross_mark @ '' Please select a valid image file''),
                    file' := Null, previewUrl := Null\<rparr>)))"

text \<open>The two branches of \<^verbatim>\<open>handleImageFile\<close>, as the states they end in.\<close>

definition image_accepted :: "string \<Rightarrow> state \<Rightarrow> jsval \<Rightarrow> state" where
  "image_accepted url s f =
     s\<lparr>file' := f, previewUrl := Str url, analyzeResult := Null, ragResult := Null,
       error := Str (check_mark @ '' Image updated successfully!'')\<rparr>"

definition image_rejected :: "state \<Rightarrow> state" where
  "image_rejected s =
     s\<lparr>file' := Null, previewUrl := Null, analyzeResult := Null, ragResult := Null,
       error := Null\<rparr>"

text \<open>
  The notice box: shown when \<^verbatim>\<open>error\<close> is truthy, and styled as a success exactly when
  the text contains the check mark.
\<close>

datatype notice = NoNotice | SuccessNotice string | ErrorNotice string

fun notice_of :: "jsval \<Rightarrow> notice" where
  "notice_of (Str t) =
     (if t = [] then NoNotice
      else if str_includes t check_mark then SuccessNotice t else ErrorNotice t)"
| "notice_of v = NoNotice"

section \<open>The two requests\<close>

text \<open>
  What \<^verbatim>\<open>await fetch(...)\<close> followed by \<^verbatim>\<open>await res.json()\<close> can produce: the fetch
  is rejected with an error carrying a message, or a response with a status arrives whose
  body either fails to parse (again an error with a message) or parses to a value.
  \<^verbatim>\<open>res.ok\<close> holds for the statuses 200 to 299.
\<close>

datatype fetch_result =
    Rejected string
  | Response nat "string + jsval"

definition res_ok :: "nat \<Rightarrow> bool" where
  "res_ok status = (200 \<le> status \<and> status \<le> 299)"

text \<open>
  \<^verbatim>\<open>handleSendClick\<close> up to its first \<^verbatim>\<open>await\<close>: the returned flag tells whether the
  request was sent.
\<close>

definition handleSendClick_begin :: "state \<Rightarrow> state \<times> bool" where
  "handleSendClick_begin s =
     (if \<not> truthy (file' s)
      then (s\<lparr>error := Str (cross_mark @ '' Please select or drop an image'')\<rparr>, False)
      else (s\<lparr>loading := True\<rparr>, True))"

text \<open>
  The rest of \<^verbatim>\<open>handleSendClick\<close>, run when the request settles, on the state of that
  moment: the \<^verbatim>\<open>try\<close> body, the \<^verbatim>\<open>catch\<close> clause (which also catches the
  \<^verbatim>\<open>TypeError\<close> of \<^verbatim>\<open>data.error\<close> on a \<^verbatim>\<open>null\<close> body and the one of the template
  literal on an error value that has no primitive value), and the \<^verbatim>\<open>finally\<close> clause.
\<close>

definition handleSendClick_settle :: "runtime \<Rightarrow> state \<Rightarrow> fetch_result \<Rightarrow> state" where
  "handleSendClick_settle rt s r =
     (let caught = (\<lambda>msg. s\<lparr>error := Str (cross_mark @ '' Error uploading image: '' @ msg)\<rparr>);
          s1 = (case r of
                  Rejected msg \<Rightarrow> caught msg
                | Response status (Inl msg) \<Rightarrow> caught msg
                | Response status (Inr data) \<Rightarrow>
                    if res_ok status
                    then s\<lparr>analyzeResult := data, error := Null, ragResult := Null\<rparr>
                    else (case get data ''error'' of
                            Inl e \<Rightarrow> caught (null_read_message rt)
                          | Inr v \<Rightarrow>
                              (case to_string rt (js_or v (Str ''Failed to process image'')) of
                                 Inl e \<Rightarrow> caught (to_primitive_message rt)
                               | Inr t \<Rightarrow>
                                   s\<lparr>error := Str (cross_mark @ '' Analyze API error: '' @ t
                                         @ '' (Status: '' @ decimal status @ '')'')\<rparr>)))
      in s1\<lparr>loading := False\<rparr>)"

definition handleSendClick :: "runtime \<Rightarrow> state \<Rightarrow> fetch_result \<Rightarrow> state" where
  "handleSendClick rt s r =
     (case handleSendClick_begin s of
        (s1, False) \<Rightarrow> s1
      | (s1, True) \<Rightarrow> handleSendClick_settle rt s1 r)"

text \<open>The body that \<^verbatim>\<open>handleSeeMoreClick\<close> posts to the generation endpoint.\<close>

definition instruction :: string where
  "instruction =
     ''Tell me about this disease and also provide prevention methods for this severity level.''"

definition payload :: "jsval \<Rightarrow> jsval" where
  "payload res =
     Obj [(''messages'', Arr [Obj [(''content'', Str instruction)]]),
          (''predicted_class'',
             js_or (opt_get (opt_get res ''disease_classification'') ''predicted_class'')
                   (Str ''Unknown'')),
          (''severity'',
             js_or (opt_get (opt_get res ''disease_segmentation'') ''severity'')
                   (Num (Fin 0))),
          (''severity_class'',
             js_or (opt_get (opt_get res ''disease_segmentation'') ''classification'')
                   (Str ''Unknown''))]"

definition handleSeeMoreClick_begin :: "state \<Rightarrow> state \<times> jsval option" where
  "handleSeeMoreClick_begin s =
     (if \<not> truthy (analyzeResult s)
      then (s\<lparr>error := Str (cross_mark
                @ '' No analysis data available to fetch more details'')\<rparr>, None)
      else (s\<lparr>ragLoading := True\<rparr>, Some (payload (analyzeResult s))))"

definition handleSeeMoreClick_settle :: "runtime \<Rightarrow> state \<Rightarrow> fetch_result \<Rightarrow> state" where
  "handleSeeMoreClick_settle rt s r =
     (let caught = (\<lambda>msg. s\<lparr>error := Str (cross_mark @ '' Error fetching RAG data: '' @ msg)\<rparr>);
          s1 = (case r of
                  Rejected msg \<Rightarrow> caught msg
                | Response status (Inl msg) \<Rightarrow> caught msg
                | Response status (Inr data) \<Rightarrow>
                    if res_ok status
                    then s\<lparr>ragResult := data, error := Null\<rparr>
                    else (case get data ''error'' of
                            Inl e \<Rightarrow> caught (null_read_message rt)
                          | Inr v \<Rightarrow>
                              (case to_string rt (js_or v (Str ''Failed to get RAG output'')) of
                                 Inl e \<Rightarrow> caught (to_primitive_message rt)
                               | Inr t \<Rightarrow>
                                   s\<lparr>error := Str (cross_mark @ '' RAG API error: '' @ t
                                         @ '' (Status: '' @ decimal status @ '')'')\<rparr>)))
      in s1\<lparr>ragLoading := False\<rparr>)"

definition handleSeeMoreClick :: "runtime \<Rightarrow> state \<Rightarrow> fetch_result \<Rightarrow> state" where
  "handleSeeMoreClick rt s r =
     (case handleSeeMoreClick_begin s of
        (s1, None) \<Rightarrow> s1
      | (s1, Some body) \<Rightarrow> handleSeeMoreClick_settle rt s1 r)"

text \<open>A request completes unsuccessfully unless a success status comes with a parsed body.\<close>

fun succeeded :: "fetch_result \<Rightarrow> bool" where
  "succeeded (Response status (Inr data)) = res_ok status"
| "succeeded r = False"

section \<open>What is rendered\<close>

text \<open>The \<^verbatim>\<open>disabled\<close> attributes of the Analyze and See More Details buttons.\<close>

definition analyze_disabled :: "state \<Rightarrow> bool" where
  "analyze_disabled s = (loading s \<or> \<not> truthy (file' s))"

definition see_more_disabled :: "state \<Rightarrow> bool" where
  "see_more_disabled s = (loading s \<or> ragLoading s)"

definition healthyColor :: string where
  "healthyColor = ''#4CAF50''"

definition diseaseColor :: string where
  "diseaseColor = ''#F44336''"

text \<open>
  \<^verbatim>\<open>getSeverityColor\<close>: the optional call \<^verbatim>\<open>level?.toLowerCase()\<close> yields
  \<^verbatim>\<open>undefined\<close> for a nullish level, the lowered text for a string, and throws for any
  other value, which has no such method.
\<close>

fun getSeverityColor :: "jsval \<Rightarrow> exn + string" where
  "getSeverityColor Undefined = Inr ''#9E9E9E''"
| "getSeverityColor Null = Inr ''#9E9E9E''"
| "getSeverityColor (Str level) =
     Inr (if toLowerCase level = ''mild'' then ''#FFC107''
          else if toLowerCase level = ''moderate'' then ''#FF9800''
          else if toLowerCase level = ''severe'' then ''#F44336''
          else if toLowerCase level = ''healthy'' then ''#4CAF50''
          else ''#9E9E9E'')"
| "getSeverityColor v = Inl TypeError"

definition severityPercentage :: "jsval \<Rightarrow> jsval" where
  "severityPercentage res =
     js_or (opt_get (opt_get res ''disease_segmentation'') ''severity'')
           (Num (Fin 0))"

text \<open>
  \<^verbatim>\<open>Object.keys\<close> and \<^verbatim>\<open>Object.values\<close>: the own enumerable properties of an object,
  the indices and elements of an array, the positions and characters of a string, nothing
  for another primitive or a file, and a \<^verbatim>\<open>TypeError\<close> for a nullish argument.
\<close>

fun object_keys :: "jsval \<Rightarrow> exn + string list" where
  "object_keys Undefined = Inl TypeError"
| "object_keys Null = Inl TypeError"
| "object_keys (Obj kvs) = Inr (map fst kvs)"
| "object_keys (Arr xs) = Inr (map decimal [0..<length xs])"
| "object_keys (Str s) = Inr (map decimal [0..<length s])"
| "object_keys v = Inr []"

fun object_values :: "jsval \<Rightarrow> exn + jsval list" where
  "object_values Undefined = Inl TypeError"
| "object_values Null = Inl TypeError"
| "object_values (Obj kvs) = Inr (map snd kvs)"
| "object_values (Arr xs) = Inr xs"
| "object_values (Str s) = Inr (map (\<lambda>c. Str [c]) s)"
| "object_values v = Inr []"

text \<open>
  The \<^verbatim>\<open>data\<close> prop of the bar chart. The expression
  \<^verbatim>\<open>analyzeResult.disease_classification.probabilities || {}\<close> occurs three times, with
  plain property reads; it is evaluated once here, since it has no effect.
\<close>

record bar_series =
  bar_labels :: "string list"
  bar_values :: "string list"
  bar_colors :: "string list"

definition probabilities_or_empty :: "jsval \<Rightarrow> exn + jsval" where
  "probabilities_or_empty res =
     (case get res ''disease_classification'' of
        Inl e \<Rightarrow> Inl e
      | Inr dc \<Rightarrow>
          (case get dc ''probabilities'' of
             Inl e \<Rightarrow> Inl e
           | Inr p \<Rightarrow> Inr (js_or p (Obj []))))"

text \<open>The callback \<^verbatim>\<open>(v) => (v * 100).toFixed(2)\<close>.\<close>

definition percent_text :: "runtime \<Rightarrow> jsval \<Rightarrow> exn + string" where
  "percent_text rt v =
     (case to_number rt v of
        Inl e \<Rightarrow> Inl e
      | Inr n \<Rightarrow> Inr (toFixed rt (times100 n) 2))"

definition bar_data :: "runtime \<Rightarrow> jsval \<Rightarrow> exn + bar_series" where
  "bar_data rt res =
     (case probabilities_or_empty res of
        Inl e \<Rightarrow> Inl e
      | Inr p \<Rightarrow>
          (case object_keys p of
             Inl e \<Rightarrow> Inl e
           | Inr ks \<Rightarrow>
               (case object_values p of
                  Inl e \<Rightarrow> Inl e
                | Inr vs \<Rightarrow>
                    (case collect (map (percent_text rt) vs) of
                       Inl e \<Rightarrow> Inl e
                     | Inr ts \<Rightarrow>
                         Inr \<lparr>bar_labels = ks,
                              bar_values = ts,
                              bar_colors = map (\<lambda>key. if toLowerCase key = ''healthy''
                                                      then healthyColor else diseaseColor)
                                               ks\<rparr>))))"

text \<open>The \<^verbatim>\<open>data\<close> prop of the doughnut chart.\<close>

record doughnut_series =
  doughnut_labels :: "string list"
  doughnut_values :: "jsval list"
  doughnut_colors :: "string list"

definition doughnut_data :: "runtime \<Rightarrow> jsval \<Rightarrow> exn + doughnut_series" where
  "doughnut_data rt res =
     (case to_number rt (severityPercentage res) of
        Inl e \<Rightarrow> Inl e
      | Inr n \<Rightarrow>
          (case getSeverityColor
                  (opt_get (opt_get res ''disease_segmentation'') ''classification'') of
             Inl e \<Rightarrow> Inl e
           | Inr c \<Rightarrow>
               Inr \<lparr>doughnut_labels = [''Diseased'', ''Healthy''],
                    doughnut_values = [severityPercentage res, Num (minus_from_100 n)],
                    doughnut_colors = [c, healthyColor]\<rparr>))"

text \<open>
  The segmentation fields below the charts: a metric is shown as it is, or as \<^verbatim>\<open>N/A\<close>
  when it is nullish (\<^verbatim>\<open>??\<close>); the classification is shown as it is, or as \<^verbatim>\<open>N/A\<close>
  when it is falsy (\<^verbatim>\<open>||\<close>); an output image is shown when the field is a non-empty
  string, and replaced by a placeholder otherwise.
\<close>

definition metric_field :: "jsval \<Rightarrow> string \<Rightarrow> jsval" where
  "metric_field res k =
     (let v = opt_get (opt_get res ''disease_segmentation'') k
      in if nullish v then Str ''N/A'' else v)"

definition classification_field :: "jsval \<Rightarrow> jsval" where
  "classification_field res =
     js_or (opt_get (opt_get res ''disease_segmentation'') ''classification'') (Str ''N/A'')"

datatype image_card = Image string | Placeholder

definition output_image :: "jsval \<Rightarrow> string \<Rightarrow> image_card" where
  "output_image res imgKey =
     (case opt_get (opt_get res ''disease_segmentation'') imgKey of
        Str base64Image \<Rightarrow> if base64Image \<noteq> [] then Image base64Image else Placeholder
      | _ \<Rightarrow> Placeholder)"

text \<open>
  The results section and the detail section are rendered only for a truthy
  \<^verbatim>\<open>analyzeResult\<close> and a truthy \<^verbatim>\<open>ragResult\<close>. The detail text is handed to the
  markdown renderer, or replaced by a fixed sentence.
\<close>

definition charts :: "runtime \<Rightarrow> state \<Rightarrow> (exn + bar_series \<times> doughnut_series) option" where
  "charts rt s =
     (if truthy (analyzeResult s)
      then Some (case bar_data rt (analyzeResult s) of
                   Inl e \<Rightarrow> Inl e
                 | Inr b \<Rightarrow>
                     (case doughnut_data rt (analyzeResult s) of
                        Inl e \<Rightarrow> Inl e
                      | Inr d \<Rightarrow> Inr (b, d)))
      else None)"

datatype detail_view = NotShown | BareText string | Markdown jsval | PlainText string

text \<open>
  What React puts in place of \<^verbatim>\<open>{x && <section/>}\<close> for a falsy \<open>x\<close>: nothing for
  \<^verbatim>\<open>false\<close>, \<^verbatim>\<open>null\<close>, \<^verbatim>\<open>undefined\<close> and the empty string, and the number itself for
  a falsy number.
\<close>

fun falsy_rendering :: "jsval \<Rightarrow> detail_view" where
  "falsy_rendering (Num NaN) = BareText ''NaN''"
| "falsy_rendering (Num n) = BareText ''0''"
| "falsy_rendering v = NotShown"

definition rag_text :: "jsval \<Rightarrow> jsval" where
  "rag_text rag =
     js_or (js_or (opt_get rag ''message'') (opt_get rag ''answer''))
           (opt_get rag ''response'')"

definition rag_output :: "jsval \<Rightarrow> detail_view" where
  "rag_output rag =
     (if truthy rag
      then (if truthy (rag_text rag) then Markdown (rag_text rag)
            else PlainText ''No response available'')
      else falsy_rendering rag)"

section \<open>The session as a transition system\<close>

text \<open>
  Between two events the component is idle; a request that was sent stays pending until it
  settles. The drop widget may hand over a candidate or set the drag flag at any time. A
  click on a disabled or unrendered button, and the settling of a request that is not
  pending, are not events of the system. The Preview button changes no state while it is
  enabled and is left out. Rendering errors are not tracked here, so the system allows at
  least the runs of the component.
\<close>

datatype event =
    FileSelected string jsval
  | DragActiveSet bool
  | AnalyzeClicked
  | AnalyzeSettled fetch_result
  | SeeMoreClicked
  | DetailSettled fetch_result

record session =
  ui :: state
  analyze_pending :: nat
  detail_pending :: nat

definition start :: session where
  "start = \<lparr>ui = initial, analyze_pending = 0, detail_pending = 0\<rparr>"

fun step :: "runtime \<Rightarrow> session \<Rightarrow> event \<Rightarrow> session option" where
  "step rt \<sigma> (FileSelected url c) =
     Some (\<sigma>\<lparr>ui := state_of (handleImageFile url (ui \<sigma>) c)\<rparr>)"
| "step rt \<sigma> (DragActiveSet b) = Some (\<sigma>\<lparr>ui := (ui \<sigma>)\<lparr>dragActive := b\<rparr>\<rparr>)"
| "step rt \<sigma> AnalyzeClicked =
     (if analyze_disabled (ui \<sigma>) then None
      else case handleSendClick_begin (ui \<sigma>) of
             (s1, sent) \<Rightarrow>
               Some (\<sigma>\<lparr>ui := s1,
                       analyze_pending := analyze_pending \<sigma> + (if sent then 1 else 0)\<rparr>))"
| "step rt \<sigma> (AnalyzeSettled r) =
     (if analyze_pending \<sigma> = 0 then None
      else Some (\<sigma>\<lparr>ui := handleSendClick_settle rt (ui \<sigma>) r,
                   analyze_pending := analyze_pending \<sigma> - 1\<rparr>))"
| "step rt \<sigma> SeeMoreClicked =
     (if \<not> truthy (analyzeResult (ui \<sigma>)) \<or> see_more_disabled (ui \<sigma>) then None
      else case handleSeeMoreClick_begin (ui \<sigma>) of
             (s1, sent) \<Rightarrow>
               Some (\<sigma>\<lparr>ui := s1,
                       detail_pending := detail_pending \<sigma> + (if sent = None then 0 else 1)\<rparr>))"
| "step rt \<sigma> (DetailSettled r) =
     (if detail_pending \<sigma> = 0 then None
      else Some (\<sigma>\<lparr>ui := handleSeeMoreClick_settle rt (ui \<sigma>) r,
                   detail_pending := detail_pending \<sigma> - 1\<rparr>))"

fun run :: "runtime \<Rightarrow> session \<Rightarrow> event list \<Rightarrow> session option" where
  "run rt \<sigma> [] = Some \<sigma>"
| "run rt \<sigma> (e # es) = (case step rt \<sigma> e of None \<Rightarrow> None | Some \<sigma>' \<Rightarrow> run rt \<sigma>' es)"

inductive reachable :: "runtime \<Rightarrow> session \<Rightarrow> bool" for rt :: runtime where
  reachable_start: "reachable rt start"
| reachable_step: "reachable rt \<sigma> \<Longrightarrow> step rt \<sigma> e = Some \<sigma>' \<Longrightarrow> reachable rt \<sigma>'"

section \<open>The specification's wording, for comparison\<close>

text \<open>
  The specification resolves the detail text by the first \<^emph>\<open>present\<close> key of an ordered
  list and falls back to a sentence when none is present. A key of a parsed JSON object is
  present exactly when reading it does not give \<^verbatim>\<open>undefined\<close>.
\<close>

fun first_present :: "string list \<Rightarrow> jsval \<Rightarrow> jsval option" where
  "first_present [] v = None"
| "first_present (k # ks) v =
     (if opt_get v k \<noteq> Undefined then Some (opt_get v k) else first_present ks v)"

definition spec_detail_view :: "jsval \<Rightarrow> detail_view" where
  "spec_detail_view rag =
     (case first_present [''message'', ''answer'', ''response''] rag of
        Some t \<Rightarrow> Markdown t
      | None \<Rightarrow> PlainText ''no content available'')"

text \<open>The same probing with \<^emph>\<open>truthy\<close> in place of \<^emph>\<open>present\<close>.\<close>

fun first_truthy :: "string list \<Rightarrow> jsval \<Rightarrow> jsval option" where
  "first_truthy [] v = None"
| "first_truthy (k # ks) v =
     (if truthy (opt_get v k) then Some (opt_get v k) else first_truthy ks v)"

text \<open>
  The specification's fallback for a field of the analysis result: the field, or a default
  when the field is absent.
\<close>

definition or_when_absent :: "jsval \<Rightarrow> jsval \<Rightarrow> jsval" where
  "or_when_absent v d = (if v = Undefined then d else v)"

text \<open>
  Two strings are equal up to case when lowering both gives the same text; the
  specification's colour table for the severity classes, read literally.
\<close>

definition equal_ignoring_case :: "string \<Rightarrow> string \<Rightarrow> bool" where
  "equal_ignoring_case a b = (toLowerCase a = toLowerCase b)"

definition spec_severity_color :: "jsval \<Rightarrow> string" where
  "spec_severity_color level =
     (if level = Str ''Mild'' then ''#FFC107''
      else if level = Str ''Moderate'' then ''#FF9800''
      else if level = Str ''Severe'' then ''#F44336''
      else if level = Str ''Healthy'' then ''#4CAF50''
      else ''#9E9E9E'')"

text \<open>
  Rounding to two decimal places: the number of hundredths closest to the magnitude, a half
  counting upward, and its printing with two digits after the point.
\<close>

definition hundredths :: "rat \<Rightarrow> nat" where
  "hundredths r = nat \<lfloor>\<bar>r\<bar> * 100 + 1 / 2\<rfloor>"

definition two_places :: "nat \<Rightarrow> string" where
  "two_places n =
     decimal (n div 100) @ ''.'' @ [digit_char (n div 10 mod 10), digit_char (n mod 10)]"

text \<open>
  The specification's value of a bar, read exactly: the product of the probability with 100
  in exact arithmetic, rounded to two decimal places.
\<close>

definition spec_percent_text :: "rat \<Rightarrow> string" where
  "spec_percent_text p =
     (if p * 100 < 0 then ''-'' else []) @ two_places (hundredths (p * 100))"

text \<open>The colour table for the severity classes with its keys compared up to case.\<close>

definition severity_color_ignoring_case :: "jsval \<Rightarrow> string" where
  "severity_color_ignoring_case level =
     (case level of
        Str t \<Rightarrow>
          (if equal_ignoring_case t ''Mild'' then ''#FFC107''
           else if equal_ignoring_case t ''Moderate'' then ''#FF9800''
           else if equal_ignoring_case t ''Severe'' then ''#F44336''
           else if equal_ignoring_case t ''Healthy'' then ''#4CAF50''
           else ''#9E9E9E'')
      | _ \<Rightarrow> ''#9E9E9E'')"

section \<open>Sample data\<close>

text \<open>
  A number literal of a JSON body denotes the double nearest to it. The sample response
  carries the probabilities and the segmentation of the specification's examples.
\<close>

definition json_number :: "rat \<Rightarrow> jsval" where
  "json_number x = Num (round_double x)"

definition sample_runtime :: runtime where
  "sample_runtime =
     \<lparr>number_to_string = (\<lambda>x. ''?''), string_to_number = (\<lambda>s. NaN),
      null_read_message =
        ''Cannot read properties of null (reading '' @ [CHR 0x27] @ ''error'' @ [CHR 0x27] @ '')'',
      to_primitive_message = ''Cannot convert object to primitive value''\<rparr>"

definition sample_probabilities :: jsval where
  "sample_probabilities =
     Obj [(''Healthy'', json_number (9 / 10)), (''Rust'', json_number (1 / 10))]"

definition sample_segmentation :: jsval where
  "sample_segmentation =
     Obj [(''severity'', json_number 35), (''classification'', Str ''Moderate'')]"

definition sample_result :: jsval where
  "sample_result =
     Obj [(''disease_classification'',
             Obj [(''predicted_class'', Str ''Healthy''),
                  (''probabilities'', sample_probabilities)]),
          (''disease_segmentation'', sample_segmentation)]"

definition sample_analyzed :: state where
  "sample_analyzed =
     initial\<lparr>file' := FileObj ''image/png'', previewUrl := Str ''blob:1'',
             analyzeResult := sample_result\<rparr>"

definition analyze_in_flight :: session where
  "analyze_in_flight =
     \<lparr>ui = initial\<lparr>file' := FileObj ''image/png'', previewUrl := Str ''blob:1'',
             error := Str (check_mark @ '' Image updated successfully!''), loading := True\<rparr>,
      analyze_pending = 1, detail_pending = 0\<rparr>"

definition detail_in_flight :: session where
  "detail_in_flight =
     \<lparr>ui = sample_analyzed\<lparr>ragLoading := True\<rparr>, analyze_pending = 0, detail_pending = 1\<rparr>"

definition race_trace :: "event list" where
  "race_trace =
     [FileSelected ''blob:1'' (FileObj ''image/png''),
      AnalyzeClicked,
      AnalyzeSettled (Response 200 (Inr sample_result)),
      SeeMoreClicked]"

section \<open>Invariant of the session\<close>

text \<open>
  Each loading flag is set exactly while a request of its kind is pending, and at most one
  request of each kind is pending.
\<close>

definition flags_match :: "session \<Rightarrow> bool" where
  "flags_match \<sigma> =
     (loading (ui \<sigma>) = (analyze_pending \<sigma> = 1) \<and> analyze_pending \<sigma> \<le> 1
      \<and> ragLoading (ui \<sigma>) = (detail_pending \<sigma> = 1) \<and> detail_pending \<sigma> \<le> 1)"

section \<open>Evaluating and bounding the number model\<close>

text \<open>
  Floors and ceilings of numeral fractions, for evaluating the rounding on literals; the
  rounding of integers below \<open>2^53\<close>, which is exact; and the digits that \<^verbatim>\<open>toFixed(2)\<close>
  prints.
\<close>

lemma floor_rat_numeral: "\<lfloor>numeral a / numeral b :: rat\<rfloor> = numeral a div numeral b"
  using floor_divide_of_int_eq [of "numeral a" "numeral b", where ?'a = rat] by simp

lemma ceiling_rat_numeral:
  "\<lceil>numeral a / numeral b :: rat\<rceil> = - (- numeral a div numeral b)"
  using floor_divide_of_int_eq [of "- numeral a" "numeral b", where ?'a = rat]
  by (simp add: ceiling_def)

lemmas binade_eval = binade_def bitlength.simps floor_rat_numeral ceiling_rat_numeral

lemma round_double_pos:
  "0 < x \<Longrightarrow> nearest x = y \<Longrightarrow> y < pow2 1024 \<Longrightarrow> round_double x = Fin y"
  by (simp add: round_double_def)

lemma bitlength_le: "n < 2 ^ m \<Longrightarrow> bitlength n \<le> m"
proof (induction m arbitrary: n)
  case 0
  then show ?case by (simp add: bitlength.simps)
next
  case (Suc m)
  show ?case
  proof (cases "n = 0")
    case True
    then show ?thesis by (simp add: bitlength.simps)
  next
    case False
    from Suc.prems have "n div 2 < 2 ^ m" by simp
    then have "bitlength (n div 2) \<le> m" by (rule Suc.IH)
    with False show ?thesis by (simp add: bitlength.simps)
  qed
qed

lemma bitlength_pos: "0 < n \<Longrightarrow> 0 < bitlength n"
  by (simp add: bitlength.simps)

lemma round_half_even_of_int: "round_half_even (of_int n) = n"
  by (simp add: round_half_even_def)

lemma nearest_of_nat:
  assumes "0 < n" and "n < 2 ^ 53"
  shows "nearest (of_nat n) = of_nat n"
proof -
  let ?b = "bitlength n"
  have b1: "0 < ?b" using assms(1) by (rule bitlength_pos)
  have b2: "?b \<le> 53" using assms(2) by (rule bitlength_le)
  have one: "(1::rat) \<le> of_nat n" using assms(1) by simp
  have bin: "binade (of_nat n) = int ?b - 1"
    using one by (simp add: binade_def)
  define k where "k = 53 - ?b"
  have q: "quantum (of_nat n) = 1 / 2 ^ k"
  proof (cases "?b = 53")
    case True
    then show ?thesis by (simp add: quantum_def bin pow2_def k_def)
  next
    case False
    with b1 b2 have "int ?b - 1 - 52 < 0" "nat (- (int ?b - 1 - 52)) = k"
      "max (int ?b - 1) (- 1022) = int ?b - 1"
      by (auto simp: k_def)
    then show ?thesis by (simp add: quantum_def bin pow2_def)
  qed
  have "of_nat n / quantum (of_nat n) = (of_int (int (n * 2 ^ k)) :: rat)"
    by (simp add: q)
  then have "round_half_even (of_nat n / quantum (of_nat n)) = int (n * 2 ^ k)"
    by (simp only: round_half_even_of_int)
  then show ?thesis
    by (simp add: nearest_def q)
qed

lemma round_double_finite:
  "x \<noteq> 0 \<Longrightarrow> \<not> pow2 1024 \<le> nearest \<bar>x\<bar> \<Longrightarrow>
   round_double x = Fin (if 0 < x then nearest \<bar>x\<bar> else - nearest \<bar>x\<bar>)"
  by (simp add: round_double_def)

lemma round_double_of_int:
  assumes "\<bar>k\<bar> < 2 ^ 53"
  shows "round_double (of_int k) = Fin (of_int k)"
proof (cases "k = 0")
  case True
  then show ?thesis by (simp add: round_double_def)
next
  case False
  define n where "n = nat \<bar>k\<bar>"
  define x :: rat where "x = of_int k"
  have n: "0 < n" "n < 2 ^ 53" "(of_nat n :: rat) = \<bar>x\<bar>"
    using False assms by (auto simp: n_def x_def nat_less_iff)
  have near: "nearest \<bar>x\<bar> = \<bar>x\<bar>"
    using nearest_of_nat [OF n(1,2)] by (simp only: n(3))
  have "(of_nat n :: rat) < 2 ^ 53" using n(2)
    by (metis of_nat_less_iff of_nat_numeral of_nat_power)
  also have "\<dots> < pow2 1024" by (simp add: pow2_def)
  finally have small: "\<not> pow2 1024 \<le> nearest \<bar>x\<bar>" by (simp add: n(3) near)
  have "x \<noteq> 0" using False by (simp add: x_def)
  then have "round_double x = Fin (if 0 < x then nearest \<bar>x\<bar> else - nearest \<bar>x\<bar>)"
    using small by (rule round_double_finite)
  also have "(if 0 < x then nearest \<bar>x\<bar> else - nearest \<bar>x\<bar>) = x"
    unfolding near by simp
  finally show ?thesis by (simp add: x_def)
qed

lemma decimal_small: "n < 10 \<Longrightarrow> decimal n = [digit_char n]"
  by (subst decimal.simps) simp

lemma decimal_step: "10 \<le> n \<Longrightarrow> decimal n = decimal (n div 10) @ [digit_char (n mod 10)]"
  by (subst decimal.simps) simp

lemma decimal_nonempty: "decimal n \<noteq> []"
  by (subst decimal.simps) simp

lemma decimal_split:
  assumes "100 \<le> n"
  shows "decimal n = decimal (n div 100) @ [digit_char (n div 10 mod 10), digit_char (n mod 10)]"
proof -
  have "10 \<le> n" "10 \<le> n div 10" using assms by auto
  then have "decimal n = (decimal (n div 10 div 10) @ [digit_char (n div 10 mod 10)])
      @ [digit_char (n mod 10)]"
    by (simp only: decimal_step)
  moreover have "n div 10 div 10 = n div 100" by (simp add: div_mult2_eq)
  ultimately show ?thesis by simp
qed

lemma toFixed_2_digits:
  "(let m = decimal n;
        m = (if (2::nat) \<noteq> 0 \<and> length m \<le> 2
             then replicate (2 + 1 - length m) (CHR ''0'') @ m else m)
    in take (length m - 2) m @ ''.'' @ drop (length m - 2) m) = two_places n"
proof -
  consider "n < 10" | "10 \<le> n" "n < 100" | "100 \<le> n" by linarith
  then show ?thesis
  proof cases
    case 1
    then show ?thesis
      by (simp add: decimal_small two_places_def Let_def numeral_3_eq_3 digit_char_def)
  next
    case 2
    then have "n div 10 < 10" "n div 100 = 0" by auto
    with 2 show ?thesis
      by (simp add: decimal_step decimal_small two_places_def Let_def digit_char_def)
  next
    case 3
    then show ?thesis
      by (simp add: decimal_split two_places_def Let_def decimal_nonempty)
  qed
qed

lemma toFixed_2:
  assumes "\<bar>r\<bar> < 10 ^ 21"
  shows "toFixed rt (Fin r) 2 = (if r < 0 then ''-'' else []) @ two_places (hundredths r)"
  using assms toFixed_2_digits [of "hundredths r"]
  by (simp add: toFixed_def hundredths_def Let_def)

lemma hundredths_nearest: "\<bar>of_nat (hundredths r) / 100 - \<bar>r\<bar>\<bar> \<le> 1 / 200"
proof -
  define y where "y = \<bar>r\<bar> * 100 + 1 / 2"
  have y: "0 \<le> y" by (simp add: y_def)
  then have "(of_nat (hundredths r) :: rat) = of_int \<lfloor>y\<rfloor>"
    by (simp add: hundredths_def y_def)
  moreover have "of_int \<lfloor>y\<rfloor> \<le> y" "y < of_int \<lfloor>y\<rfloor> + 1" by linarith+
  ultimately have "of_nat (hundredths r) \<le> \<bar>r\<bar> * 100 + 1 / 2"
    "\<bar>r\<bar> * 100 - 1 / 2 < of_nat (hundredths r)"
    by (simp_all add: y_def)
  then have "of_nat (hundredths r) / 100 - \<bar>r\<bar> \<le> 1 / 200"
    "- (1 / 200) \<le> of_nat (hundredths r) / 100 - \<bar>r\<bar>"
    by (simp_all add: field_simps)
  then show ?thesis by linarith
qed

text \<open>
  The rounding is to nearest: a positive number lies in the binade that \<open>binade\<close>
  names, and \<open>nearest\<close> moves it by at most half a quantum.
\<close>

lemma bitlength_bounds: "0 < n \<Longrightarrow> 2 ^ (bitlength n - 1) \<le> n \<and> n < 2 ^ bitlength n"
proof (induction n rule: bitlength.induct)
  case (1 n)
  show ?case
  proof (cases "n div 2 = 0")
    case True
    with "1.prems" have "n = 1" by (auto simp: div_eq_0_iff)
    then show ?thesis by (simp add: bitlength.simps)
  next
    case False
    then have pos: "0 < n div 2" by simp
    with "1.prems" "1.IH" have ih: "2 ^ (bitlength (n div 2) - 1) \<le> n div 2"
      "n div 2 < 2 ^ bitlength (n div 2)" by auto
    have b: "bitlength n = Suc (bitlength (n div 2))"
      using "1.prems" by (subst bitlength.simps) simp
    have bp: "0 < bitlength (n div 2)" using pos by (rule bitlength_pos)
    then have "(2::nat) ^ (bitlength n - 1) = 2 * 2 ^ (bitlength (n div 2) - 1)"
      unfolding b by (cases "bitlength (n div 2)") simp_all
    also have "\<dots> \<le> 2 * (n div 2)" using ih(1) by simp
    also have "\<dots> \<le> n" by simp
    finally have lo: "2 ^ (bitlength n - 1) \<le> n" .
    have "n < 2 * (n div 2) + 2" by presburger
    also have "\<dots> \<le> 2 * 2 ^ bitlength (n div 2)" using ih(2) by simp
    finally have hi: "n < 2 ^ bitlength n" unfolding b by simp
    from lo hi show ?thesis ..
  qed
qed

lemma pow2_nat: "pow2 (int m) = 2 ^ m"
  by (simp add: pow2_def)

lemma pow2_pos: "0 < pow2 e"
  by (simp add: pow2_def)

lemma pow2_neg: "pow2 (- int m) = 1 / 2 ^ m"
  by (simp add: pow2_def)

lemma binade_bounds:
  assumes "0 < a"
  shows "pow2 (binade a) \<le> a \<and> a < pow2 (binade a + 1)"
proof (cases "1 \<le> a")
  case True
  define n where "n = nat \<lfloor>a\<rfloor>"
  have n: "0 < n" using True by (simp add: n_def)
  have "0 \<le> \<lfloor>a\<rfloor>" using True by simp
  then have "(of_nat n :: rat) = of_int \<lfloor>a\<rfloor>" by (simp add: n_def)
  then have fl: "of_nat n \<le> a" "a < of_nat n + 1"
    by linarith+
  from bitlength_bounds [OF n] have b: "2 ^ (bitlength n - 1) \<le> n" "n < 2 ^ bitlength n"
    by auto
  have bp: "0 < bitlength n" using n by (rule bitlength_pos)
  then have e: "binade a = int (bitlength n - 1)" "binade a + 1 = int (bitlength n)"
    using True by (simp_all add: binade_def n_def)
  have "(2::rat) ^ (bitlength n - 1) = of_nat (2 ^ (bitlength n - 1))" by simp
  also have "\<dots> \<le> of_nat n" using b(1) by (simp only: of_nat_le_iff)
  finally have lo: "pow2 (binade a) \<le> a" using fl(1) by (simp only: e(1) pow2_nat)
  have "of_nat n + 1 = (of_nat (Suc n) :: rat)" by simp
  also have "\<dots> \<le> of_nat (2 ^ bitlength n)"
    using b(2) by (simp only: of_nat_le_iff Suc_le_eq)
  also have "\<dots> = 2 ^ bitlength n" by simp
  finally have hi: "a < pow2 (binade a + 1)" using fl(2) by (simp only: e(2) pow2_nat)
  from lo hi show ?thesis ..
next
  case False
  define y where "y = 1 / a"
  define c where "c = nat \<lceil>y\<rceil>"
  define m where "m = bitlength (c - 1)"
  have y: "1 < y" using False assms by (simp add: y_def)
  have "1 < \<lceil>y\<rceil>" using y by (simp add: less_ceiling_iff)
  then have "(of_nat c :: rat) = of_int \<lceil>y\<rceil>" "2 \<le> c"
    by (simp_all add: c_def le_nat_iff)
  then have c: "y \<le> of_nat c" "2 \<le> c"
    by linarith+
  then have c1: "0 < c - 1" by simp
  from bitlength_bounds [OF c1] have b: "2 ^ (m - 1) \<le> c - 1" "c - 1 < 2 ^ m"
    by (auto simp: m_def)
  have mp: "0 < m" unfolding m_def using c1 by (rule bitlength_pos)
  have e: "binade a = - int m"
    using False by (simp add: binade_def m_def c_def y_def)
  have "c \<le> 2 ^ m" using b(2) c(2) by linarith
  then have "of_nat c \<le> (of_nat (2 ^ m) :: rat)" by (simp only: of_nat_le_iff)
  also have "(of_nat (2 ^ m) :: rat) = 2 ^ m" by simp
  finally have "y \<le> 2 ^ m" using c(1) by linarith
  then have "1 / 2 ^ m \<le> a" using assms by (simp add: y_def field_simps)
  then have lo: "pow2 (binade a) \<le> a" by (simp only: e pow2_neg)
  have "2 ^ (m - 1) < c" using b(1) c(2) by linarith
  then have "int (2 ^ (m - 1)) < \<lceil>y\<rceil>" using c(2) by (simp add: c_def)
  then have "of_int (int (2 ^ (m - 1))) < y" by (simp only: less_ceiling_iff)
  then have "2 ^ (m - 1) < y" by simp
  then have "a < 1 / 2 ^ (m - 1)" using assms by (simp add: y_def field_simps)
  moreover have "binade a + 1 = - int (m - 1)" using mp by (simp add: e)
  then have "pow2 (binade a + 1) = 1 / 2 ^ (m - 1)" by (simp only: pow2_neg)
  ultimately have hi: "a < pow2 (binade a + 1)" by simp
  from lo hi show ?thesis ..
qed

lemma round_half_even_close: "\<bar>of_int (round_half_even y) - y\<bar> \<le> 1 / 2"
proof -
  have "of_int \<lfloor>y\<rfloor> \<le> y" "y < of_int \<lfloor>y\<rfloor> + 1" by linarith+
  then show ?thesis
    by (auto simp: round_half_even_def Let_def)
qed

lemma nearest_error:
  "\<bar>nearest a - a\<bar> \<le> quantum a / 2"
proof -
  have q: "0 < quantum a" by (simp add: quantum_def pow2_pos)
  define k where "k = round_half_even (a / quantum a)"
  have "nearest a - a = (of_int k - a / quantum a) * quantum a"
    using q by (simp add: nearest_def k_def left_diff_distrib)
  then have "\<bar>nearest a - a\<bar> = \<bar>of_int k - a / quantum a\<bar> * quantum a"
    using q by (simp add: abs_mult)
  then have "\<bar>nearest a - a\<bar>
      = \<bar>of_int (round_half_even (a / quantum a)) - a / quantum a\<bar> * quantum a"
    by (simp only: k_def)
  also have "\<dots> \<le> 1 / 2 * quantum a"
    using round_half_even_close [of "a / quantum a"] q
    by (simp only: mult_le_cancel_right_pos)
  finally show ?thesis by simp
qed

section \<open>File selection\<close>

lemma is_image_missing: "nullish c \<Longrightarrow> is_image c = Inr False"
  by (simp add: is_image_def)

lemma is_image_file: "is_image (FileObj t) = Inr (startsWith t ''image/'')"
  by (simp add: is_image_def nullish_def)

lemma handleImageFile_rejects:
  "is_image c = Inr False \<Longrightarrow> handleImageFile url s c = Done (image_rejected s)"
  by (simp add: handleImageFile_def resetState_def image_rejected_def)

lemma handleImageFile_accepts:
  "startsWith t ''image/'' \<Longrightarrow>
   handleImageFile url s (FileObj t) = Done (image_accepted url s (FileObj t))"
  by (simp add: handleImageFile_def is_image_file resetState_def image_accepted_def)

text \<open>
  C2 (the code at the failing inputs). A missing candidate, or a file whose type does not
  start with \<^verbatim>\<open>image/\<close>, takes the else branch of \<^verbatim>\<open>handleImageFile\<close>. That branch
  sets the validation message first and calls \<^verbatim>\<open>resetState\<close> last, which sets the
  message back to \<^verbatim>\<open>null\<close>: the file, the preview and both results are cleared, and so
  is the notice, whatever the state was before. The image branch calls \<^verbatim>\<open>resetState\<close>
  before it sets its message, and its notice is shown.
\<close>

theorem handleImageFile_invalid_notice_lost:
  "handleImageFile url s Null = handleImageFile url s Undefined
   \<and> handleImageFile url s (FileObj ''text/plain'') = handleImageFile url s Undefined
   \<and> handleImageFile url s Undefined =
       Done (s\<lparr>file' := Null, previewUrl := Null, analyzeResult := Null, ragResult := Null,
               error := Null\<rparr>)
   \<and> notice_of (error (state_of (handleImageFile url s Undefined))) = NoNotice
   \<and> notice_of (error (state_of (handleImageFile url s (FileObj ''image/png''))))
       = SuccessNotice (check_mark @ '' Image updated successfully!'')"
  by (simp add: handleImageFile_def is_image_def nullish_def resetState_def check_mark_def)

text \<open>
  C6 (as stated, refuted). A candidate that is an object without a \<^verbatim>\<open>type\<close> property
  is not handled by either branch: the optional chain only guards the candidate itself, so
  \<^verbatim>\<open>startsWith\<close> is called on \<^verbatim>\<open>undefined\<close> and the handler throws.
\<close>

theorem handleImageFile_throws_counterexample:
  "handleImageFile ''blob:1'' initial (Obj []) = Throws TypeError initial"
  by (simp add: handleImageFile_def is_image_def nullish_def)

text \<open>
  C6 (amended). For a missing candidate (\<^verbatim>\<open>null\<close> or \<^verbatim>\<open>undefined\<close>) and for every
  \<^verbatim>\<open>File\<close>, whose \<^verbatim>\<open>type\<close> is always a string, \<^verbatim>\<open>handleImageFile\<close> returns without
  throwing, through exactly one of its two branches: the image branch when the type starts
  with \<^verbatim>\<open>image/\<close>, the other branch otherwise.
\<close>

theorem handleImageFile_never_throws_on_files:
  assumes "nullish c \<or> (\<exists>t. c = FileObj t)"
  shows "(is_image c = Inr True \<and> handleImageFile url s c = Done (image_accepted url s c))
       \<or> (is_image c = Inr False \<and> handleImageFile url s c = Done (image_rejected s))"
proof (cases "nullish c")
  case True
  then show ?thesis
    by (simp add: is_image_missing handleImageFile_rejects)
next
  case False
  with assms obtain t where c: "c = FileObj t" by blast
  show ?thesis
  proof (cases "startsWith t ''image/''")
    case True
    then show ?thesis
      unfolding c by (simp add: is_image_file handleImageFile_accepts)
  next
    case False
    then have "is_image c = Inr False"
      unfolding c by (simp add: is_image_file)
    then show ?thesis
      by (simp add: handleImageFile_rejects)
  qed
qed

theorem handleImageFile_never_throws_on_files_witness:
  "(nullish (FileObj ''image/png'') \<or> (\<exists>t. FileObj ''image/png'' = FileObj t))
   \<and> handleImageFile ''blob:1'' initial (FileObj ''image/png'')
       = Done (image_accepted ''blob:1'' initial (FileObj ''image/png''))"
  using handleImageFile_never_throws_on_files
    [of "FileObj ''image/png''" "''blob:1''" initial]
  by (simp add: is_image_file)

section \<open>Completion of the requests\<close>

text \<open>
  C1 (as stated, refuted). With an earlier result on display, an analyze request that is
  answered with status 500, or that fails in transport, leaves that result in place: the
  failure paths of \<^verbatim>\<open>handleSendClick\<close> only set the notice, and no path but the
  successful one writes \<^verbatim>\<open>analyzeResult\<close>.
\<close>

theorem failed_analyze_keeps_result_counterexample:
  "analyzeResult (handleSendClick sample_runtime sample_analyzed
       (Response 500 (Inr (Obj [(''error'', Str ''bad image'')])))) = sample_result
   \<and> sample_result \<noteq> Null
   \<and> analyzeResult (handleSendClick sample_runtime sample_analyzed (Rejected ''Failed to fetch''))
       = sample_result"
  by (simp add: handleSendClick_def handleSendClick_begin_def handleSendClick_settle_def
      sample_analyzed_def sample_result_def res_ok_def Let_def js_or_def)

text \<open>
  C1 (amended). An analyze request that completes unsuccessfully (a status outside 200 to
  299, a body that does not parse, or a rejected fetch) changes only the notice, which it
  sets to a message that starts with the cross mark, and the loading flag, which it resets:
  the stored analysis result and detail result, the selected file, its preview, the drag
  flag and the detail loading flag are as they were. This holds for the continuation after
  the await from any state, and for a whole run of the handler that sends its request.
\<close>

theorem failed_analyze_keeps_result:
  assumes "\<not> succeeded r"
  shows "(\<exists>msg. handleSendClick_settle rt s r
                = s\<lparr>error := Str (cross_mark @ msg), loading := False\<rparr>)
       \<and> (truthy (file' s) \<longrightarrow>
            (\<exists>msg. handleSendClick rt s r
                = s\<lparr>error := Str (cross_mark @ msg), loading := False\<rparr>))
       \<and> analyzeResult (handleSendClick_settle rt s r) = analyzeResult s
       \<and> ragResult (handleSendClick_settle rt s r) = ragResult s
       \<and> analyzeResult (handleSendClick rt s r) = analyzeResult s
       \<and> ragResult (handleSendClick rt s r) = ragResult s"
proof -
  have settle: "\<exists>msg. handleSendClick_settle rt s' r
      = s'\<lparr>error := Str (cross_mark @ msg), loading := False\<rparr>" for s'
    using assms
    by (cases r rule: succeeded.cases)
       (auto simp: handleSendClick_settle_def Let_def split: sum.splits)
  then obtain msg where m: "handleSendClick_settle rt s r
      = s\<lparr>error := Str (cross_mark @ msg), loading := False\<rparr>"
    by blast
  from settle obtain msg' where m': "handleSendClick_settle rt (s\<lparr>loading := True\<rparr>) r
      = s\<lparr>loading := True\<rparr>\<lparr>error := Str (cross_mark @ msg'), loading := False\<rparr>"
    by blast
  have whole: "truthy (file' s) \<Longrightarrow>
      handleSendClick rt s r = s\<lparr>error := Str (cross_mark @ msg'), loading := False\<rparr>"
    by (simp add: handleSendClick_def handleSendClick_begin_def m')
  have results: "analyzeResult (handleSendClick rt s r) = analyzeResult s
      \<and> ragResult (handleSendClick rt s r) = ragResult s"
  proof (cases "truthy (file' s)")
    case True
    then show ?thesis by (simp add: whole)
  next
    case False
    then show ?thesis by (simp add: handleSendClick_def handleSendClick_begin_def)
  qed
  from m whole results show ?thesis
    by (auto simp: m)
qed

theorem failed_analyze_keeps_result_witness:
  "\<not> succeeded (Response 500 (Inr (Obj [(''error'', Str ''bad image'')])))
   \<and> handleSendClick_settle sample_runtime sample_analyzed
         (Response 500 (Inr (Obj [(''error'', Str ''bad image'')])))
       = sample_analyzed
           \<lparr>error := Str (cross_mark @ '' Analyze API error: bad image (Status: 500)''),
            loading := False\<rparr>
   \<and> truthy (file' sample_analyzed)
   \<and> analyzeResult (handleSendClick sample_runtime sample_analyzed
         (Response 500 (Inr (Obj [(''error'', Str ''bad image'')])))) = sample_result"
  using failed_analyze_keeps_result
    [of "Response 500 (Inr (Obj [(''error'', Str ''bad image'')]))" sample_runtime
        sample_analyzed]
  by (simp add: res_ok_def sample_analyzed_def handleSendClick_settle_def Let_def js_or_def
      decimal.simps digit_char_def)

text \<open>
  C7. When an analyze request settles, successfully or not, \<^verbatim>\<open>loading\<close> is false
  afterwards, and when a detail request settles, \<^verbatim>\<open>ragLoading\<close> is false afterwards: the
  \<^verbatim>\<open>finally\<close> clauses run on every path. The same holds for a whole run of either
  handler that sends its request.
\<close>

theorem loading_flags_reset:
  "loading (handleSendClick_settle rt s r) = False
   \<and> ragLoading (handleSeeMoreClick_settle rt s r') = False
   \<and> (truthy (file' s) \<longrightarrow> loading (handleSendClick rt s r) = False)
   \<and> (truthy (analyzeResult s) \<longrightarrow> ragLoading (handleSeeMoreClick rt s r') = False)"
  by (simp add: handleSendClick_def handleSendClick_begin_def handleSendClick_settle_def
      handleSeeMoreClick_def handleSeeMoreClick_begin_def handleSeeMoreClick_settle_def Let_def)

theorem loading_flags_reset_witness:
  "truthy (file' sample_analyzed)
   \<and> loading (handleSendClick sample_runtime sample_analyzed (Rejected ''Failed to fetch''))
       = False
   \<and> truthy (analyzeResult sample_analyzed)
   \<and> ragLoading (handleSeeMoreClick sample_runtime sample_analyzed (Response 500 (Inr Null)))
       = False"
  using loading_flags_reset
    [of sample_runtime sample_analyzed "Rejected ''Failed to fetch''" "Response 500 (Inr Null)"]
  by (simp add: sample_analyzed_def sample_result_def)

section \<open>The detail request\<close>

text \<open>
  C10 (as stated, refuted). A predicted label that is present but empty is not sent: the
  payload carries \<^verbatim>\<open>"Unknown"\<close>, where the fallback for an absent label alone would keep
  the label.
\<close>

theorem payload_fallback_counterexample:
  "get (payload (Obj [(''disease_classification'', Obj [(''predicted_class'', Str [])])]))
       ''predicted_class'' = Inr (Str ''Unknown'')
   \<and> opt_get (opt_get (Obj [(''disease_classification'', Obj [(''predicted_class'', Str [])])])
        ''disease_classification'') ''predicted_class'' = Str []
   \<and> or_when_absent (Str []) (Str ''Unknown'') = Str []"
  by (simp add: payload_def js_or_def opt_get_def or_when_absent_def)

text \<open>
  C10 (amended). The payload has exactly the four fields \<^verbatim>\<open>messages\<close>,
  \<^verbatim>\<open>predicted_class\<close>, \<^verbatim>\<open>severity\<close> and \<^verbatim>\<open>severity_class\<close>. \<^verbatim>\<open>messages\<close> holds the
  fixed instruction. \<^verbatim>\<open>predicted_class\<close> is the predicted label when that is truthy (a
  non-empty string) and \<^verbatim>\<open>"Unknown"\<close> otherwise, so also for an absent, null or empty
  label; \<^verbatim>\<open>severity_class\<close> likewise from the classification label. \<^verbatim>\<open>severity\<close> is the
  severity when that is truthy and 0 otherwise: every finite severity number, zero included,
  is sent as it is, and an absent one as 0.
\<close>

theorem payload_fields:
  "get (payload ar) ''messages'' = Inr (Arr [Obj [(''content'', Str instruction)]])
   \<and> object_keys (payload ar)
       = Inr [''messages'', ''predicted_class'', ''severity'', ''severity_class'']
   \<and> get (payload ar) ''predicted_class''
       = Inr (let v = opt_get (opt_get ar ''disease_classification'') ''predicted_class''
              in if truthy v then v else Str ''Unknown'')
   \<and> get (payload ar) ''severity''
       = Inr (let v = opt_get (opt_get ar ''disease_segmentation'') ''severity''
              in if truthy v then v else Num (Fin 0))
   \<and> (\<forall>x. opt_get (opt_get ar ''disease_segmentation'') ''severity'' = Num (Fin x)
          \<longrightarrow> get (payload ar) ''severity'' = Inr (Num (Fin x)))
   \<and> get (payload ar) ''severity_class''
       = Inr (let v = opt_get (opt_get ar ''disease_segmentation'') ''classification''
              in if truthy v then v else Str ''Unknown'')"
  by (auto simp: payload_def js_or_def Let_def)

theorem payload_fields_witness:
  "opt_get (opt_get (Obj [(''disease_segmentation'', Obj [(''severity'', Num (Fin 0))])])
       ''disease_segmentation'') ''severity'' = Num (Fin 0)
   \<and> get (payload (Obj [(''disease_segmentation'', Obj [(''severity'', Num (Fin 0))])]))
       ''severity'' = Inr (Num (Fin 0))
   \<and> get (payload (Obj [(''disease_segmentation'', Obj [(''severity'', Num (Fin 0))])]))
       ''predicted_class'' = Inr (Str ''Unknown'')"
  using payload_fields [of "Obj [(''disease_segmentation'', Obj [(''severity'', Num (Fin 0))])]"]
  by (simp add: opt_get_def)

lemma rag_text_first_truthy:
  "(if truthy (rag_text rag) then Markdown (rag_text rag)
    else PlainText ''No response available'')
   = (case first_truthy [''message'', ''answer'', ''response''] rag of
        Some t \<Rightarrow> Markdown t
      | None \<Rightarrow> PlainText ''No response available'')"
  by (simp add: rag_text_def js_or_def)

text \<open>
  C8 (as stated, refuted). With an empty \<^verbatim>\<open>message\<close> and a non-empty \<^verbatim>\<open>answer\<close> the
  first present key is \<^verbatim>\<open>message\<close>, yet the answer is displayed. With none of the three
  keys the displayed sentence is \<^verbatim>\<open>No response available\<close>, and for a falsy body such as
  \<^verbatim>\<open>null\<close> the detail section is not rendered at all.
\<close>

theorem detail_text_counterexample:
  "rag_output (Obj [(''message'', Str []), (''answer'', Str ''x'')]) = Markdown (Str ''x'')
   \<and> spec_detail_view (Obj [(''message'', Str []), (''answer'', Str ''x'')])
       = Markdown (Str [])
   \<and> rag_output (Obj [(''text'', Str ''x'')]) = PlainText ''No response available''
   \<and> spec_detail_view (Obj [(''text'', Str ''x'')]) = PlainText ''no content available''
   \<and> rag_output Null = NotShown
   \<and> spec_detail_view Null = PlainText ''no content available''"
  by (simp add: rag_output_def rag_text_def js_or_def opt_get_def spec_detail_view_def)

text \<open>
  C8 (amended). A successful detail response stores its body. For a truthy body the
  displayed text is the value of the first key among \<^verbatim>\<open>message\<close>, \<^verbatim>\<open>answer\<close>,
  \<^verbatim>\<open>response\<close> whose value is truthy (for a string: non-empty), and the sentence
  \<^verbatim>\<open>No response available\<close> when no value is truthy; for a falsy body the detail section
  is not rendered (nothing is shown in its place, except the bare number for a falsy
  number).
\<close>

theorem detail_text_first_truthy:
  assumes "res_ok status"
  shows "ragResult (handleSeeMoreClick_settle rt s (Response status (Inr data))) = data
       \<and> rag_output data =
           (if truthy data
            then (case first_truthy [''message'', ''answer'', ''response''] data of
                    Some t \<Rightarrow> Markdown t
                  | None \<Rightarrow> PlainText ''No response available'')
            else falsy_rendering data)
       \<and> (\<not> truthy data \<and> (\<forall>n. data \<noteq> Num n) \<longrightarrow> rag_output data = NotShown)"
proof -
  have "(\<forall>n. data \<noteq> Num n) \<Longrightarrow> falsy_rendering data = NotShown"
    by (cases data) simp_all
  with assms rag_text_first_truthy [of data] show ?thesis
    by (simp add: handleSeeMoreClick_settle_def rag_output_def Let_def)
qed

theorem detail_text_first_truthy_witness:
  "res_ok 200
   \<and> rag_output (ragResult (handleSeeMoreClick_settle sample_runtime sample_analyzed
        (Response 200 (Inr (Obj [(''message'', Str []), (''answer'', Str ''x'')])))))
       = Markdown (Str ''x'')"
  using detail_text_first_truthy [of 200 sample_runtime sample_analyzed
      "Obj [(''message'', Str []), (''answer'', Str ''x'')]"]
  by (simp add: res_ok_def opt_get_def)

section \<open>The chart series\<close>

lemma lower_names:
  "toLowerCase ''healthy'' = ''healthy''" "toLowerCase ''Healthy'' = ''healthy''"
  "toLowerCase ''Mild'' = ''mild''" "toLowerCase ''Moderate'' = ''moderate''"
  "toLowerCase ''Severe'' = ''severe''" "toLowerCase ''Rust'' = ''rust''"
  "toLowerCase ''mild'' = ''mild''" "toLowerCase ''Unknown'' = ''unknown''"
  by code_simp+

lemma collect_Inr: "collect (map (\<lambda>x. Inr (f x)) xs) = Inr (map f xs)"
  by (induction xs) simp_all

lemma probabilities_of_object:
  assumes "get ar ''disease_classification'' = Inr dc"
    and "get dc ''probabilities'' = Inr (Obj kvs)"
  shows "probabilities_or_empty ar = Inr (Obj kvs)"
  using assms by (simp add: probabilities_or_empty_def js_or_def)

lemma bar_data_of_numbers:
  assumes "probabilities_or_empty ar = Inr (Obj (map (\<lambda>(k, n). (k, Num n)) kns))"
  shows "bar_data rt ar =
     Inr \<lparr>bar_labels = map fst kns,
          bar_values = map (\<lambda>(k, n). toFixed rt (times100 n) 2) kns,
          bar_colors = map (\<lambda>(k, n). if equal_ignoring_case k ''healthy''
                                      then healthyColor else diseaseColor) kns\<rparr>"
proof -
  have "map (percent_text rt) (map snd (map (\<lambda>(k, n). (k, Num n)) kns))
      = map (\<lambda>kn. Inr ((\<lambda>(k, n). toFixed rt (times100 n) 2) kn)) kns"
    by (simp add: percent_text_def case_prod_unfold comp_def)
  then have "collect (map (percent_text rt) (map snd (map (\<lambda>(k, n). (k, Num n)) kns)))
      = Inr (map (\<lambda>(k, n). toFixed rt (times100 n) 2) kns)"
    by (simp only: collect_Inr)
  with assms show ?thesis
    by (simp add: bar_data_def equal_ignoring_case_def lower_names case_prod_unfold comp_def)
qed

text \<open>
  A double product is within half a quantum of the exact product, which for a product in
  the normal range is a relative error of at most \<open>2^-53\<close>.
\<close>

lemma round_double_error:
  assumes "round_double x = Fin y"
  shows "\<bar>y - x\<bar> \<le> quantum \<bar>x\<bar> / 2"
proof (cases "x = 0")
  case True
  with assms show ?thesis by (simp add: round_double_def quantum_def pow2_def)
next
  case False
  with assms have y: "y = (if 0 < x then nearest \<bar>x\<bar> else - nearest \<bar>x\<bar>)"
    by (simp add: round_double_def split: if_splits)
  have "\<bar>y - x\<bar> = \<bar>nearest \<bar>x\<bar> - \<bar>x\<bar>\<bar>"
    unfolding y by (simp add: abs_if)
  then show ?thesis using nearest_error [of "\<bar>x\<bar>"] by simp
qed

lemma pow2_powi: "pow2 e = 2 powi e"
  by (simp add: pow2_def power_int_def field_simps)

lemma quantum_normal:
  assumes "pow2 (- 1022) \<le> a"
  shows "quantum a \<le> a / 2 ^ 52"
proof -
  have a: "0 < a" using assms pow2_pos [of "- 1022"] by linarith
  from binade_bounds [OF a] have b: "pow2 (binade a) \<le> a" "a < pow2 (binade a + 1)"
    by auto
  have "\<not> binade a + 1 \<le> - 1022"
  proof
    assume "binade a + 1 \<le> - 1022"
    then have "pow2 (binade a + 1) \<le> pow2 (- 1022)"
      unfolding pow2_powi by (intro power_int_increasing) simp_all
    with b(2) assms show False by linarith
  qed
  then have m: "max (binade a) (- 1022) = binade a" by simp
  have "quantum a = pow2 (binade a) / 2 ^ 52"
    unfolding quantum_def m pow2_powi by (simp add: power_int_diff)
  with b(1) show ?thesis by (simp add: divide_right_mono)
qed

lemma round_double_relative_error:
  assumes "round_double x = Fin y" and "pow2 (- 1022) \<le> \<bar>x\<bar>"
  shows "\<bar>y - x\<bar> \<le> \<bar>x\<bar> / 2 ^ 53"
proof -
  have "\<bar>y - x\<bar> \<le> quantum \<bar>x\<bar> / 2" using assms(1) by (rule round_double_error)
  also have "\<dots> \<le> (\<bar>x\<bar> / 2 ^ 52) / 2"
    using quantum_normal [OF assms(2)] by simp
  also have "\<dots> = \<bar>x\<bar> / 2 ^ 53" by simp
  finally show ?thesis .
qed

text \<open>The doubles of the samples: 0.9, 0.1 and 0.99565 as parsed, and their products with 100.\<close>

lemma quantum_9_10: "quantum (9 / 10) = 1 / 2 ^ 53"
  by (simp add: quantum_def binade_eval pow2_def)

lemma nearest_9_10: "nearest (9 / 10) = 8106479329266893 / 9007199254740992"
  unfolding nearest_def quantum_9_10 by (simp add: round_half_even_def Let_def floor_rat_numeral)

lemma double_9_10: "round_double (9 / 10) = Fin (8106479329266893 / 9007199254740992)"
  by (rule round_double_pos [OF _ nearest_9_10]) (simp_all add: pow2_def)

lemma quantum_1_10: "quantum (1 / 10) = 1 / 2 ^ 56"
  by (simp add: quantum_def binade_eval pow2_def)

lemma nearest_1_10: "nearest (1 / 10) = 3602879701896397 / 36028797018963968"
  unfolding nearest_def quantum_1_10 by (simp add: round_half_even_def Let_def floor_rat_numeral)

lemma double_1_10: "round_double (1 / 10) = Fin (3602879701896397 / 36028797018963968)"
  by (rule round_double_pos [OF _ nearest_1_10]) (simp_all add: pow2_def)

lemma quantum_90: "quantum (8106479329266893 / 9007199254740992 * 100) = 1 / 2 ^ 46"
  by (simp add: quantum_def binade_eval pow2_def)

lemma nearest_90: "nearest (8106479329266893 / 9007199254740992 * 100) = 90"
  unfolding nearest_def quantum_90 by (simp add: round_half_even_def Let_def floor_rat_numeral)

lemma times100_9_10: "times100 (round_double (9 / 10)) = Fin 90"
proof -
  have "round_double (8106479329266893 / 9007199254740992 * 100) = Fin 90"
    by (rule round_double_pos [OF _ nearest_90]) (simp_all add: pow2_def)
  then show ?thesis
    by (simp only: double_9_10 times100.simps)
qed

lemma quantum_10: "quantum (3602879701896397 / 36028797018963968 * 100) = 1 / 2 ^ 49"
  by (simp add: quantum_def binade_eval pow2_def)

lemma nearest_10: "nearest (3602879701896397 / 36028797018963968 * 100) = 10"
  unfolding nearest_def quantum_10 by (simp add: round_half_even_def Let_def floor_rat_numeral)

lemma times100_1_10: "times100 (round_double (1 / 10)) = Fin 10"
proof -
  have "round_double (3602879701896397 / 36028797018963968 * 100) = Fin 10"
    by (rule round_double_pos [OF _ nearest_10]) (simp_all add: pow2_def)
  then show ?thesis
    by (simp only: double_1_10 times100.simps)
qed

lemma toFixed_90: "toFixed rt (Fin 90) 2 = ''90.00''"
  by (simp add: toFixed_def Let_def floor_rat_numeral decimal.simps digit_char_def)

lemma toFixed_10: "toFixed rt (Fin 10) 2 = ''10.00''"
  by (simp add: toFixed_def Let_def floor_rat_numeral decimal.simps digit_char_def)

lemma quantum_99565: "quantum (99565 / 100000) = 1 / 2 ^ 53"
  by (simp add: quantum_def binade_eval pow2_def)

lemma nearest_99565: "nearest (99565 / 100000) = 8968017937982869 / 9007199254740992"
  unfolding nearest_def quantum_99565
  by (simp add: round_half_even_def Let_def floor_rat_numeral)

lemma double_99565:
  "round_double (99565 / 100000) = Fin (8968017937982869 / 9007199254740992)"
  by (rule round_double_pos [OF _ nearest_99565]) (simp_all add: pow2_def)

lemma quantum_99565_100: "quantum (8968017937982869 / 9007199254740992 * 100) = 1 / 2 ^ 46"
  by (simp add: quantum_def binade_eval pow2_def)

lemma nearest_99565_100:
  "nearest (8968017937982869 / 9007199254740992 * 100) = 1751566003512279 / 17592186044416"
  unfolding nearest_def quantum_99565_100
  by (simp add: round_half_even_def Let_def floor_rat_numeral)

lemma times100_99565:
  "times100 (Fin (8968017937982869 / 9007199254740992))
     = Fin (1751566003512279 / 17592186044416)"
proof -
  have "round_double (8968017937982869 / 9007199254740992 * 100)
      = Fin (1751566003512279 / 17592186044416)"
    by (rule round_double_pos [OF _ nearest_99565_100]) (simp_all add: pow2_def)
  then show ?thesis
    by (simp only: times100.simps)
qed

lemma round_product_99565:
  "round_double (224200448449571725 / 2251799813685248)
     = Fin (1751566003512279 / 17592186044416)"
  using times100_99565 by simp

lemma toFixed_99565: "toFixed rt (Fin (1751566003512279 / 17592186044416)) 2 = ''99.56''"
  by (simp add: toFixed_def Let_def floor_rat_numeral decimal.simps digit_char_def)

lemma spec_percent_text_99565:
  "spec_percent_text (8968017937982869 / 9007199254740992) = ''99.57''"
  by (simp add: spec_percent_text_def hundredths_def two_places_def floor_rat_numeral
      decimal.simps digit_char_def)

lemma sample_probabilities_read:
  "probabilities_or_empty sample_result = Inr sample_probabilities"
  by (simp add: probabilities_or_empty_def sample_result_def sample_probabilities_def js_or_def)

lemma bar_data_sample:
  "bar_data rt sample_result =
     Inr \<lparr>bar_labels = [''Healthy'', ''Rust''], bar_values = [''90.00'', ''10.00''],
          bar_colors = [healthyColor, diseaseColor]\<rparr>"
proof -
  have "probabilities_or_empty sample_result =
      Inr (Obj (map (\<lambda>(k, n). (k, Num n))
        [(''Healthy'', round_double (9 / 10)), (''Rust'', round_double (1 / 10))]))"
    by (simp add: sample_probabilities_read sample_probabilities_def json_number_def)
  from bar_data_of_numbers [OF this, of rt] show ?thesis
    by (simp add: times100_9_10 times100_1_10 toFixed_90 toFixed_10
        equal_ignoring_case_def lower_names)
qed

text \<open>
  C4 (as stated, refuted). The value of a bar is not the exact product of the probability
  with 100 rounded to two decimal places. The probability 0.99565, as the double that a
  JSON body with this literal is parsed to, has an exact product with 100 slightly above
  99.565, which rounds to 99.57; the double product is the double just below 99.565, and the
  bar shows 99.56.
\<close>

theorem percent_text_counterexample:
  "bar_data sample_runtime
     (Obj [(''disease_classification'',
            Obj [(''probabilities'', Obj [(''Rust'', json_number (99565 / 100000))])])])
     = Inr \<lparr>bar_labels = [''Rust''], bar_values = [''99.56''], bar_colors = [diseaseColor]\<rparr>
   \<and> json_number (99565 / 100000) = Num (Fin (8968017937982869 / 9007199254740992))
   \<and> spec_percent_text (8968017937982869 / 9007199254740992) = ''99.57''"
proof -
  have "probabilities_or_empty
      (Obj [(''disease_classification'',
             Obj [(''probabilities'', Obj [(''Rust'', json_number (99565 / 100000))])])])
      = Inr (Obj (map (\<lambda>(k, n). (k, Num n))
          [(''Rust'', Fin (8968017937982869 / 9007199254740992))]))"
    using double_99565 by (simp add: probabilities_or_empty_def js_or_def json_number_def)
  from bar_data_of_numbers [OF this, of sample_runtime]
  have "bar_data sample_runtime
     (Obj [(''disease_classification'',
            Obj [(''probabilities'', Obj [(''Rust'', json_number (99565 / 100000))])])])
     = Inr \<lparr>bar_labels = [''Rust''], bar_values = [''99.56''], bar_colors = [diseaseColor]\<rparr>"
    by (simp add: round_product_99565 toFixed_99565 equal_ignoring_case_def lower_names)
  then show ?thesis
    using double_99565 by (simp add: json_number_def spec_percent_text_99565)
qed

text \<open>
  C4 (amended). When the probabilities are an object whose entries are numbers, the labels
  of the bar series are its keys in iteration order; the value for each key is the text
  that \<^verbatim>\<open>toFixed(2)\<close> gives for the double product of its entry with 100; the colour is
  the healthy green exactly when the key equals \<^verbatim>\<open>healthy\<close> up to case, and the disease
  red otherwise. The double product of a finite probability is the double nearest to the
  exact product, within a relative error of \<open>2^-53\<close> in the normal range; the text that
  \<^verbatim>\<open>toFixed(2)\<close> gives for a finite double below \<open>10^21\<close> is its sign and the number of
  hundredths nearest to it, printed with two decimal places. For the probabilities
  \<^verbatim>\<open>{Healthy: 0.9, Rust: 0.1}\<close> the series has the labels \<^verbatim>\<open>Healthy\<close>, \<^verbatim>\<open>Rust\<close>, the
  values \<^verbatim>\<open>90.00\<close>, \<^verbatim>\<open>10.00\<close> and the colours green, red.
\<close>

theorem bar_series_projection:
  "(\<forall>dc kns. get ar ''disease_classification'' = Inr dc
        \<longrightarrow> get dc ''probabilities'' = Inr (Obj (map (\<lambda>(k, n). (k, Num n)) kns))
        \<longrightarrow> bar_data rt ar =
             Inr \<lparr>bar_labels = map fst kns,
                  bar_values = map (\<lambda>(k, n). toFixed rt (times100 n) 2) kns,
                  bar_colors = map (\<lambda>(k, n). if equal_ignoring_case k ''healthy''
                                              then healthyColor else diseaseColor) kns\<rparr>)
   \<and> (\<forall>p. times100 (Fin p) = round_double (p * 100))
   \<and> (\<forall>x y. round_double x = Fin y \<longrightarrow> pow2 (- 1022) \<le> \<bar>x\<bar>
        \<longrightarrow> \<bar>y - x\<bar> \<le> \<bar>x\<bar> / 2 ^ 53)
   \<and> (\<forall>y. \<bar>y\<bar> < 10 ^ 21
        \<longrightarrow> toFixed rt (Fin y) 2 = (if y < 0 then ''-'' else []) @ two_places (hundredths y)
            \<and> \<bar>of_nat (hundredths y) / 100 - \<bar>y\<bar>\<bar> \<le> 1 / 200)
   \<and> bar_data rt sample_result =
        Inr \<lparr>bar_labels = [''Healthy'', ''Rust''], bar_values = [''90.00'', ''10.00''],
             bar_colors = [healthyColor, diseaseColor]\<rparr>
   \<and> healthyColor = ''#4CAF50'' \<and> diseaseColor = ''#F44336''"
proof (intro conjI allI impI)
  fix dc kns
  assume "get ar ''disease_classification'' = Inr dc"
    "get dc ''probabilities'' = Inr (Obj (map (\<lambda>(k, n). (k, Num n)) kns))"
  then have "probabilities_or_empty ar = Inr (Obj (map (\<lambda>(k, n). (k, Num n)) kns))"
    by (rule probabilities_of_object)
  then show "bar_data rt ar =
      Inr \<lparr>bar_labels = map fst kns,
           bar_values = map (\<lambda>(k, n). toFixed rt (times100 n) 2) kns,
           bar_colors = map (\<lambda>(k, n). if equal_ignoring_case k ''healthy''
                                       then healthyColor else diseaseColor) kns\<rparr>"
    by (rule bar_data_of_numbers)
next
  fix p show "times100 (Fin p) = round_double (p * 100)" by simp
next
  fix x y :: rat
  assume "round_double x = Fin y" "pow2 (- 1022) \<le> \<bar>x\<bar>"
  then show "\<bar>y - x\<bar> \<le> \<bar>x\<bar> / 2 ^ 53" by (rule round_double_relative_error)
next
  fix y :: rat assume "\<bar>y\<bar> < 10 ^ 21"
  then show "toFixed rt (Fin y) 2 = (if y < 0 then ''-'' else []) @ two_places (hundredths y)"
    by (rule toFixed_2)
next
  fix y :: rat
  show "\<bar>of_nat (hundredths y) / 100 - \<bar>y\<bar>\<bar> \<le> 1 / 200"
    by (rule hundredths_nearest)
next
  show "bar_data rt sample_result =
      Inr \<lparr>bar_labels = [''Healthy'', ''Rust''], bar_values = [''90.00'', ''10.00''],
           bar_colors = [healthyColor, diseaseColor]\<rparr>"
    by (rule bar_data_sample)
qed (simp_all add: healthyColor_def diseaseColor_def)

theorem bar_series_projection_witness:
  "get sample_result ''disease_classification''
       = Inr (Obj [(''predicted_class'', Str ''Healthy''),
                   (''probabilities'', sample_probabilities)])
   \<and> get (Obj [(''predicted_class'', Str ''Healthy''), (''probabilities'', sample_probabilities)])
        ''probabilities''
       = Inr (Obj (map (\<lambda>(k, n). (k, Num n))
           [(''Healthy'', round_double (9 / 10)), (''Rust'', round_double (1 / 10))]))
   \<and> bar_data sample_runtime sample_result =
        Inr \<lparr>bar_labels = [''Healthy'', ''Rust''],
             bar_values = [toFixed sample_runtime (times100 (round_double (9 / 10))) 2,
                           toFixed sample_runtime (times100 (round_double (1 / 10))) 2],
             bar_colors = [healthyColor, diseaseColor]\<rparr>
   \<and> round_double 90 = Fin 90
   \<and> pow2 (- 1022) \<le> \<bar>90\<bar>
   \<and> \<bar>90 - 90 :: rat\<bar> \<le> \<bar>90\<bar> / 2 ^ 53
   \<and> \<bar>90 :: rat\<bar> < 10 ^ 21
   \<and> toFixed sample_runtime (Fin 90) 2 = two_places (hundredths 90)"
proof -
  note t = bar_series_projection [of sample_result sample_runtime]
  have g1: "get sample_result ''disease_classification''
      = Inr (Obj [(''predicted_class'', Str ''Healthy''),
                  (''probabilities'', sample_probabilities)])"
    by (simp add: sample_result_def)
  have g2: "get (Obj [(''predicted_class'', Str ''Healthy''),
                      (''probabilities'', sample_probabilities)]) ''probabilities''
      = Inr (Obj (map (\<lambda>(k, n). (k, Num n))
          [(''Healthy'', round_double (9 / 10)), (''Rust'', round_double (1 / 10))]))"
    by (simp add: sample_probabilities_def json_number_def)
  have bars: "bar_data sample_runtime sample_result =
      Inr \<lparr>bar_labels = [''Healthy'', ''Rust''],
           bar_values = [toFixed sample_runtime (times100 (round_double (9 / 10))) 2,
                         toFixed sample_runtime (times100 (round_double (1 / 10))) 2],
           bar_colors = [healthyColor, diseaseColor]\<rparr>"
    using t [THEN conjunct1, rule_format, OF g1 g2]
    by (simp add: equal_ignoring_case_def lower_names)
  have r: "round_double 90 = Fin 90"
    using round_double_of_int [of 90] by simp
  have n: "pow2 (- 1022) \<le> \<bar>90 :: rat\<bar>"
    by (simp add: pow2_def)
  have "toFixed sample_runtime (Fin 90) 2 = two_places (hundredths 90)"
    using t by simp
  with g1 g2 bars r n show ?thesis by simp
qed

lemma bar_data_empty:
  assumes "get ar ''disease_classification'' = Inr dc"
    and "get dc ''probabilities'' = Inr p" and "\<not> truthy p \<or> p = Obj []"
  shows "bar_data rt ar = Inr \<lparr>bar_labels = [], bar_values = [], bar_colors = []\<rparr>"
  using assms
  by (auto simp: bar_data_def probabilities_or_empty_def js_or_def)

lemma get_present: "\<not> nullish v \<Longrightarrow> \<exists>w. get v k = Inr w"
  by (cases v) (simp_all add: nullish_def)

lemma round_double_numeral:
  "\<bar>numeral n :: int\<bar> < 2 ^ 53 \<Longrightarrow> round_double (numeral n) = Fin (numeral n)"
  using round_double_of_int [of "numeral n"] by simp

lemma doughnut_data_colored:
  assumes "to_number rt (severityPercentage ar) = Inr n"
    and "getSeverityColor
      (opt_get (opt_get ar ''disease_segmentation'') ''classification'') = Inr c"
  shows "doughnut_data rt ar =
     Inr \<lparr>doughnut_labels = [''Diseased'', ''Healthy''],
          doughnut_values = [severityPercentage ar, Num (minus_from_100 n)],
          doughnut_colors = [c, healthyColor]\<rparr>"
  using assms by (simp add: doughnut_data_def)

lemma doughnut_data_default:
  assumes "opt_get (opt_get ar ''disease_segmentation'') ''classification'' = Undefined"
    and "opt_get (opt_get ar ''disease_segmentation'') ''severity'' = Undefined"
  shows "doughnut_data rt ar =
     Inr \<lparr>doughnut_labels = [''Diseased'', ''Healthy''],
          doughnut_values = [Num (Fin 0), Num (Fin 100)],
          doughnut_colors = [''#9E9E9E'', ''#4CAF50'']\<rparr>"
proof -
  have sp: "severityPercentage ar = Num (Fin 0)"
    using assms(2) by (simp add: severityPercentage_def js_or_def)
  have n: "to_number rt (severityPercentage ar) = Inr (Fin 0)"
    by (simp add: sp)
  have c: "getSeverityColor
      (opt_get (opt_get ar ''disease_segmentation'') ''classification'') = Inr ''#9E9E9E''"
    by (simp add: assms(1))
  from doughnut_data_colored [OF n c] show ?thesis
    by (simp add: sp round_double_numeral healthyColor_def)
qed

text \<open>
  C5. For every analysis result that carries the top-level key
  \<^verbatim>\<open>disease_classification\<close> with a value other than \<^verbatim>\<open>null\<close>, as every success body
  of the analyze endpoint does: when the probability map is absent, null, otherwise falsy
  or empty, the bar series is the empty series and building it raises no error. The
  absence of the other nested fields is displayable as well: without severity and
  classification the doughnut series is 0 and 100 in gray and green; an absent metric is
  shown as \<^verbatim>\<open>N/A\<close>, an absent classification as \<^verbatim>\<open>N/A\<close>, and an absent output image as
  the placeholder.
\<close>

theorem absent_fields_are_displayable:
  assumes "get ar ''disease_classification'' = Inr dc" and "\<not> nullish dc"
  shows "(\<exists>p. get dc ''probabilities'' = Inr p)
       \<and> (\<forall>p. get dc ''probabilities'' = Inr p \<longrightarrow> \<not> truthy p \<or> p = Obj [] \<longrightarrow>
            bar_data rt ar = Inr \<lparr>bar_labels = [], bar_values = [], bar_colors = []\<rparr>)
       \<and> (opt_get (opt_get ar ''disease_segmentation'') ''classification'' = Undefined \<longrightarrow>
          opt_get (opt_get ar ''disease_segmentation'') ''severity'' = Undefined \<longrightarrow>
            doughnut_data rt ar =
              Inr \<lparr>doughnut_labels = [''Diseased'', ''Healthy''],
                   doughnut_values = [Num (Fin 0), Num (Fin 100)],
                   doughnut_colors = [''#9E9E9E'', ''#4CAF50'']\<rparr>)
       \<and> (\<forall>k. opt_get (opt_get ar ''disease_segmentation'') k = Undefined \<longrightarrow>
            metric_field ar k = Str ''N/A'' \<and> output_image ar k = Placeholder)
       \<and> (opt_get (opt_get ar ''disease_segmentation'') ''classification'' = Undefined \<longrightarrow>
            classification_field ar = Str ''N/A'')"
proof (intro conjI allI impI)
  show "\<exists>p. get dc ''probabilities'' = Inr p"
    using assms(2) by (rule get_present)
next
  fix p assume "get dc ''probabilities'' = Inr p" "\<not> truthy p \<or> p = Obj []"
  with assms(1) show "bar_data rt ar = Inr \<lparr>bar_labels = [], bar_values = [], bar_colors = []\<rparr>"
    by (rule bar_data_empty)
next
  assume "opt_get (opt_get ar ''disease_segmentation'') ''classification'' = Undefined"
    "opt_get (opt_get ar ''disease_segmentation'') ''severity'' = Undefined"
  then show "doughnut_data rt ar =
      Inr \<lparr>doughnut_labels = [''Diseased'', ''Healthy''],
           doughnut_values = [Num (Fin 0), Num (Fin 100)],
           doughnut_colors = [''#9E9E9E'', ''#4CAF50'']\<rparr>"
    by (rule doughnut_data_default)
qed (simp_all add: metric_field_def output_image_def classification_field_def nullish_def
    js_or_def)

theorem absent_fields_are_displayable_witness:
  "get (Obj [(''disease_classification'', Obj [(''predicted_class'', Str ''Rust'')]),
             (''disease_segmentation'', Obj [])]) ''disease_classification''
       = Inr (Obj [(''predicted_class'', Str ''Rust'')])
   \<and> \<not> nullish (Obj [(''predicted_class'', Str ''Rust'')])
   \<and> get (Obj [(''predicted_class'', Str ''Rust'')]) ''probabilities'' = Inr Undefined
   \<and> charts sample_runtime
        (initial\<lparr>analyzeResult :=
           Obj [(''disease_classification'', Obj [(''predicted_class'', Str ''Rust'')]),
                (''disease_segmentation'', Obj [])]\<rparr>)
       = Some (Inr (\<lparr>bar_labels = [], bar_values = [], bar_colors = []\<rparr>,
                    \<lparr>doughnut_labels = [''Diseased'', ''Healthy''],
                     doughnut_values = [Num (Fin 0), Num (Fin 100)],
                     doughnut_colors = [''#9E9E9E'', ''#4CAF50'']\<rparr>))
   \<and> metric_field
        (Obj [(''disease_classification'', Obj [(''predicted_class'', Str ''Rust'')]),
              (''disease_segmentation'', Obj [])]) ''boundary_pixels'' = Str ''N/A''"
proof -
  let ?ar = "Obj [(''disease_classification'', Obj [(''predicted_class'', Str ''Rust'')]),
                  (''disease_segmentation'', Obj [])]"
  have g: "get ?ar ''disease_classification'' = Inr (Obj [(''predicted_class'', Str ''Rust'')])"
    by simp
  have n: "\<not> nullish (Obj [(''predicted_class'', Str ''Rust'')])"
    by (simp add: nullish_def)
  from absent_fields_are_displayable [OF g n, of sample_runtime] g n show ?thesis
    by (simp add: charts_def opt_get_def)
qed

text \<open>
  That domain is needed. A stored result without the key \<^verbatim>\<open>disease_classification\<close>,
  or with \<^verbatim>\<open>null\<close> for it, is outside it: the bar series reads \<^verbatim>\<open>probabilities\<close>
  with a plain property access and the render throws, while the doughnut series and the
  detail payload, which use optional chains, are built.
\<close>

lemma bar_data_needs_classification:
  "bar_data rt (Obj [(''disease_segmentation'', sample_segmentation)]) = Inl TypeError
   \<and> charts rt (handleSendClick_settle rt s
         (Response 200 (Inr (Obj [(''disease_segmentation'', sample_segmentation)]))))
       = Some (Inl TypeError)
   \<and> bar_data rt (Obj [(''disease_classification'', Null)]) = Inl TypeError
   \<and> get (payload (Obj [(''disease_segmentation'', sample_segmentation)])) ''predicted_class''
       = Inr (Str ''Unknown'')"
  by (simp add: bar_data_def probabilities_or_empty_def charts_def handleSendClick_settle_def
      res_ok_def Let_def payload_def js_or_def opt_get_def)

lemma getSeverityColor_ignoring_case:
  assumes "nullish cls \<or> (\<exists>t. cls = Str t)"
  shows "getSeverityColor cls = Inr (severity_color_ignoring_case cls)"
  using assms
  by (auto simp: nullish_def severity_color_ignoring_case_def equal_ignoring_case_def
      lower_names)

lemma round_double_100_minus:
  "\<bar>100 - k\<bar> < 2 ^ 53 \<Longrightarrow> round_double (100 - of_int k) = Fin (of_int (100 - k))"
  using round_double_of_int [of "100 - k"] by simp

lemma sample_segmentation_read:
  "opt_get (opt_get sample_result ''disease_segmentation'') ''classification'' = Str ''Moderate''"
  "opt_get (opt_get sample_result ''disease_segmentation'') ''severity'' = Num (Fin 35)"
  by (simp_all add: sample_result_def sample_segmentation_def opt_get_def json_number_def
      round_double_numeral)

lemma doughnut_data_sample:
  "doughnut_data rt sample_result =
     Inr \<lparr>doughnut_labels = [''Diseased'', ''Healthy''],
          doughnut_values = [Num (Fin 35), Num (Fin 65)],
          doughnut_colors = [''#FF9800'', ''#4CAF50'']\<rparr>"
proof -
  have sp: "severityPercentage sample_result = Num (Fin 35)"
    by (simp add: severityPercentage_def sample_segmentation_read js_or_def)
  have n: "to_number rt (severityPercentage sample_result) = Inr (Fin 35)"
    by (simp add: sp)
  have c: "getSeverityColor
      (opt_get (opt_get sample_result ''disease_segmentation'') ''classification'')
      = Inr ''#FF9800''"
    by (simp add: sample_segmentation_read lower_names)
  from doughnut_data_colored [OF n c] show ?thesis
    by (simp add: sp round_double_numeral healthyColor_def)
qed

text \<open>
  C9 (as stated, refuted). The colour table is not read literally: a classification in
  another case than the table's key, such as \<^verbatim>\<open>mild\<close>, gets the colour of that key and
  not the neutral gray, and a classification that is not a string, such as a number, makes
  \<^verbatim>\<open>getSeverityColor\<close> throw.
\<close>

theorem severity_color_counterexample:
  "getSeverityColor (Str ''mild'') = Inr ''#FFC107''
   \<and> spec_severity_color (Str ''mild'') = ''#9E9E9E''
   \<and> map_sum id doughnut_colors
        (doughnut_data sample_runtime
           (Obj [(''disease_segmentation'',
                  Obj [(''severity'', Num (Fin 35)), (''classification'', Str ''mild'')])]))
       = Inr [''#FFC107'', ''#4CAF50'']
   \<and> doughnut_data sample_runtime
        (Obj [(''disease_segmentation'',
               Obj [(''severity'', Num (Fin 35)), (''classification'', Num (Fin 3))])])
       = Inl TypeError"
  by (simp add: spec_severity_color_def doughnut_data_def opt_get_def lower_names
      healthyColor_def severityPercentage_def js_or_def)

text \<open>
  C9 (amended). For every analysis result whose segmentation classification is absent, null
  or a string, the doughnut series has exactly the two slices \<^verbatim>\<open>Diseased\<close> and
  \<^verbatim>\<open>Healthy\<close>. The diseased value is the severity number, or 0 when the severity is
  absent; the healthy value is the double nearest to 100 minus that value, which is 100 minus
  that value itself whenever the severity is an integer. The colour of the diseased slice is
  given by the table Mild, amber; Moderate, orange; Severe, red; Healthy, green, with the
  classification compared with the keys up to case, and neutral gray for any other string
  and for an absent classification; the healthy slice is green. For the segmentation
  \<^verbatim>\<open>{severity: 35, classification: "Moderate"}\<close> the slices are 35 in orange and 65 in
  green.
\<close>

theorem doughnut_projection:
  assumes "opt_get (opt_get ar ''disease_segmentation'') ''classification'' = cls"
    and "opt_get (opt_get ar ''disease_segmentation'') ''severity'' = sev"
    and "nullish cls \<or> (\<exists>t. cls = Str t)"
  shows "(sev = Undefined \<longrightarrow>
            doughnut_data rt ar =
              Inr \<lparr>doughnut_labels = [''Diseased'', ''Healthy''],
                   doughnut_values = [Num (Fin 0), Num (Fin 100)],
                   doughnut_colors = [severity_color_ignoring_case cls, ''#4CAF50'']\<rparr>)
       \<and> (\<forall>x. sev = Num (Fin x) \<longrightarrow>
            doughnut_data rt ar =
              Inr \<lparr>doughnut_labels = [''Diseased'', ''Healthy''],
                   doughnut_values = [Num (Fin x), Num (round_double (100 - x))],
                   doughnut_colors = [severity_color_ignoring_case cls, ''#4CAF50'']\<rparr>)
       \<and> (\<forall>k. \<bar>100 - k\<bar> < 2 ^ 53 \<longrightarrow>
            round_double (100 - of_int k) = Fin (of_int (100 - k)))
       \<and> doughnut_data rt sample_result =
            Inr \<lparr>doughnut_labels = [''Diseased'', ''Healthy''],
                 doughnut_values = [Num (Fin 35), Num (Fin 65)],
                 doughnut_colors = [''#FF9800'', ''#4CAF50'']\<rparr>
       \<and> severity_color_ignoring_case (Str ''Mild'') = ''#FFC107''
       \<and> severity_color_ignoring_case (Str ''Moderate'') = ''#FF9800''
       \<and> severity_color_ignoring_case (Str ''Severe'') = ''#F44336''
       \<and> severity_color_ignoring_case (Str ''Healthy'') = ''#4CAF50''
       \<and> severity_color_ignoring_case (Str ''Unknown'') = ''#9E9E9E''
       \<and> severity_color_ignoring_case Undefined = ''#9E9E9E''"
proof -
  have c: "getSeverityColor (opt_get (opt_get ar ''disease_segmentation'') ''classification'')
      = Inr (severity_color_ignoring_case cls)"
    using assms(3) unfolding assms(1) by (rule getSeverityColor_ignoring_case)
  have absent: "doughnut_data rt ar =
      Inr \<lparr>doughnut_labels = [''Diseased'', ''Healthy''],
           doughnut_values = [Num (Fin 0), Num (Fin 100)],
           doughnut_colors = [severity_color_ignoring_case cls, ''#4CAF50'']\<rparr>"
    if "sev = Undefined"
  proof -
    have sp: "severityPercentage ar = Num (Fin 0)"
      using that assms(2) by (simp add: severityPercentage_def js_or_def)
    have n: "to_number rt (severityPercentage ar) = Inr (Fin 0)"
      by (simp add: sp)
    from doughnut_data_colored [OF n c] show ?thesis
      by (simp add: sp round_double_numeral healthyColor_def)
  qed
  have number: "doughnut_data rt ar =
      Inr \<lparr>doughnut_labels = [''Diseased'', ''Healthy''],
           doughnut_values = [Num (Fin x), Num (round_double (100 - x))],
           doughnut_colors = [severity_color_ignoring_case cls, ''#4CAF50'']\<rparr>"
    if "sev = Num (Fin x)" for x
  proof -
    have sp: "severityPercentage ar = Num (Fin x)"
      using that assms(2) by (simp add: severityPercentage_def js_or_def)
    have n: "to_number rt (severityPercentage ar) = Inr (Fin x)"
      by (simp add: sp)
    from doughnut_data_colored [OF n c] show ?thesis
      by (simp add: sp healthyColor_def)
  qed
  have table:
    "severity_color_ignoring_case (Str ''Mild'') = ''#FFC107''"
    "severity_color_ignoring_case (Str ''Moderate'') = ''#FF9800''"
    "severity_color_ignoring_case (Str ''Severe'') = ''#F44336''"
    "severity_color_ignoring_case (Str ''Healthy'') = ''#4CAF50''"
    "severity_color_ignoring_case (Str ''Unknown'') = ''#9E9E9E''"
    "severity_color_ignoring_case Undefined = ''#9E9E9E''"
    by (simp_all add: severity_color_ignoring_case_def equal_ignoring_case_def lower_names)
  show ?thesis
    using absent number round_double_100_minus doughnut_data_sample [of rt] table
    by blast
qed

theorem doughnut_projection_witness:
  "opt_get (opt_get sample_result ''disease_segmentation'') ''classification'' = Str ''Moderate''
   \<and> opt_get (opt_get sample_result ''disease_segmentation'') ''severity'' = Num (Fin 35)
   \<and> (nullish (Str ''Moderate'') \<or> (\<exists>t. Str ''Moderate'' = Str t))
   \<and> doughnut_data sample_runtime sample_result =
        Inr \<lparr>doughnut_labels = [''Diseased'', ''Healthy''],
             doughnut_values = [Num (Fin 35), Num (round_double (100 - 35))],
             doughnut_colors = [severity_color_ignoring_case (Str ''Moderate''), ''#4CAF50'']\<rparr>"
  using doughnut_projection
    [of sample_result "Str ''Moderate''" "Num (Fin 35)" sample_runtime]
  by (simp add: sample_segmentation_read)

section \<open>Mutual exclusion of the triggers\<close>

lemma handleImageFile_flags:
  "loading (state_of (handleImageFile url s c)) = loading s
   \<and> ragLoading (state_of (handleImageFile url s c)) = ragLoading s"
  by (auto simp: handleImageFile_def resetState_def Let_def split: sum.splits bool.splits)

lemma settle_flags:
  "loading (handleSendClick_settle rt s r) = False
   \<and> ragLoading (handleSendClick_settle rt s r) = ragLoading s
   \<and> ragLoading (handleSeeMoreClick_settle rt s r) = False
   \<and> loading (handleSeeMoreClick_settle rt s r) = loading s"
  by (auto simp: handleSendClick_settle_def handleSeeMoreClick_settle_def Let_def
      split: fetch_result.splits sum.splits)

lemma step_flags_match:
  assumes "flags_match \<sigma>" and "step rt \<sigma> e = Some \<sigma>'"
  shows "flags_match \<sigma>'"
proof (cases e)
  case (FileSelected url c)
  with assms show ?thesis
    by (auto simp: flags_match_def handleImageFile_flags)
next
  case (DragActiveSet b)
  with assms show ?thesis
    by (auto simp: flags_match_def)
next
  case AnalyzeClicked
  with assms show ?thesis
    by (auto simp: flags_match_def analyze_disabled_def handleSendClick_begin_def
        split: if_splits)
next
  case (AnalyzeSettled r)
  with assms show ?thesis
    by (auto simp: flags_match_def settle_flags split: if_splits)
next
  case SeeMoreClicked
  with assms show ?thesis
    by (auto simp: flags_match_def see_more_disabled_def handleSeeMoreClick_begin_def
        split: if_splits)
next
  case (DetailSettled r)
  with assms show ?thesis
    by (auto simp: flags_match_def settle_flags split: if_splits)
qed

lemma reachable_flags_match: "reachable rt \<sigma> \<Longrightarrow> flags_match \<sigma>"
proof (induction rule: reachable.induct)
  case reachable_start
  show ?case by (simp add: flags_match_def start_def initial_def)
next
  case (reachable_step \<sigma> e \<sigma>')
  then show ?case by (blast intro: step_flags_match)
qed

lemma run_reachable:
  "reachable rt \<sigma> \<Longrightarrow> run rt \<sigma> es = Some \<sigma>' \<Longrightarrow> reachable rt \<sigma>'"
proof (induction es arbitrary: \<sigma>)
  case Nil
  then show ?case by simp
next
  case (Cons e es)
  then obtain \<sigma>1 where s: "step rt \<sigma> e = Some \<sigma>1" and r: "run rt \<sigma>1 es = Some \<sigma>'"
    by (auto split: option.splits)
  from Cons.prems(1) s have "reachable rt \<sigma>1" by (rule reachable_step)
  with r show ?case by (rule Cons.IH [rotated])
qed

lemma run_race_trace: "run sample_runtime start race_trace = Some detail_in_flight"
  by (simp add: race_trace_def start_def initial_def sample_analyzed_def handleImageFile_def
      is_image_def nullish_def resetState_def analyze_disabled_def handleSendClick_begin_def
      handleSendClick_settle_def res_ok_def Let_def see_more_disabled_def
      handleSeeMoreClick_begin_def sample_result_def detail_in_flight_def)

text \<open>
  C3 (as stated, refuted). After a file is chosen, analysed successfully and the detail
  button is clicked, the detail request is pending and the analyze button is enabled; a
  click on it is accepted and both requests are pending together.
\<close>

theorem analyze_enabled_during_detail_counterexample:
  "run sample_runtime start race_trace = Some detail_in_flight
   \<and> detail_pending detail_in_flight = 1
   \<and> \<not> analyze_disabled (ui detail_in_flight)
   \<and> step sample_runtime detail_in_flight AnalyzeClicked
       = Some (detail_in_flight\<lparr>ui := ui detail_in_flight\<lparr>loading := True\<rparr>,
                analyze_pending := 1\<rparr>)"
  by (simp add: run_race_trace)
     (simp add: detail_in_flight_def analyze_disabled_def sample_analyzed_def
        handleSendClick_begin_def initial_def)

text \<open>
  C3 (amended). In every reachable state of the session: the detail button is disabled
  while an analyze request or a detail request is pending; the analyze button is disabled
  while an analyze request is pending (and while no file is selected), but not by a pending
  detail request; at most one request of each kind is pending.
\<close>

theorem triggers_disabled_while_loading:
  assumes "reachable rt \<sigma>"
  shows "(analyze_pending \<sigma> > 0 \<or> detail_pending \<sigma> > 0 \<longrightarrow> see_more_disabled (ui \<sigma>))
       \<and> (analyze_pending \<sigma> > 0 \<longrightarrow> analyze_disabled (ui \<sigma>))
       \<and> analyze_pending \<sigma> \<le> 1 \<and> detail_pending \<sigma> \<le> 1
       \<and> see_more_disabled (ui \<sigma>) = (loading (ui \<sigma>) \<or> ragLoading (ui \<sigma>))
       \<and> analyze_disabled (ui \<sigma>) = (loading (ui \<sigma>) \<or> \<not> truthy (file' (ui \<sigma>)))"
  using reachable_flags_match [OF assms]
  by (auto simp: flags_match_def see_more_disabled_def analyze_disabled_def)

lemma run_analyze_in_flight:
  "run sample_runtime start [FileSelected ''blob:1'' (FileObj ''image/png''), AnalyzeClicked]
     = Some analyze_in_flight"
  by (simp add: start_def initial_def handleImageFile_def is_image_def nullish_def
      resetState_def analyze_disabled_def handleSendClick_begin_def analyze_in_flight_def)

theorem triggers_disabled_while_loading_witness:
  "reachable sample_runtime analyze_in_flight
   \<and> analyze_pending analyze_in_flight = 1
   \<and> see_more_disabled (ui analyze_in_flight)
   \<and> analyze_disabled (ui analyze_in_flight)"
proof -
  have r: "reachable sample_runtime analyze_in_flight"
    using reachable_start run_analyze_in_flight by (rule run_reachable)
  have "analyze_pending analyze_in_flight = 1"
    by (simp add: analyze_in_flight_def)
  with r triggers_disabled_while_loading [OF r] show ?thesis by simp
qed

end
